theory Spec2Isabelle
  imports Complex_Main "HOL-Library.Sublist"
begin

section \<open>JavaScript values\<close>

text \<open>
  The routes receive whatever \<^verbatim>\<open>request.json()\<close> parsed, and the TypeScript types of
  the adapters are erased at run time, so every field is modelled as an untyped value.
  A number is an exact rational or one of the three special doubles; the rounding error of
  double arithmetic is not modelled (products and comparisons are exact).
\<close>

datatype jsnum = Fin rat | PosInf | NegInf | NaN

datatype jsval =
    Undefined
  | Null
  | JBool bool
  | JNumber jsnum
  | JString string
  | JArray "jsval list"
  | JObject "(string \<times> jsval) list"

text \<open>\<^verbatim>\<open>!v\<close> is \<open>\<not> truthy v\<close>.\<close>

fun truthy :: "jsval \<Rightarrow> bool" where
  "truthy Undefined = False"
| "truthy Null = False"
| "truthy (JBool b) = b"
| "truthy (JNumber (Fin r)) = (r \<noteq> 0)"
| "truthy (JNumber PosInf) = True"
| "truthy (JNumber NegInf) = True"
| "truthy (JNumber NaN) = False"
| "truthy (JString s) = (s \<noteq> [])"
| "truthy (JArray xs) = True"
| "truthy (JObject fs) = True"

definition nullish :: "jsval \<Rightarrow> bool" where
  "nullish v = (v = Undefined \<or> v = Null)"

text \<open>\<^verbatim>\<open>a ?? b\<close>\<close>

definition coalesce :: "jsval \<Rightarrow> jsval \<Rightarrow> jsval" where
  "coalesce a b = (if nullish a then b else a)"

text \<open>
  Reading a property \<^verbatim>\<open>v.k\<close> of a value that is neither \<^verbatim>\<open>null\<close> nor
  \<^verbatim>\<open>undefined\<close>. Only the keys the program reads are ever asked for (amount, currency,
  type, provider, description, success_url, cancel_url, isRecurring, id, url, message, error,
  code, apiCode); none of them is a built-in property of a string, number, boolean or array,
  so those values answer \<^verbatim>\<open>undefined\<close>.
\<close>

fun get :: "jsval \<Rightarrow> string \<Rightarrow> jsval" where
  "get (JObject fs) k = (case map_of fs k of None \<Rightarrow> Undefined | Some v \<Rightarrow> v)"
| "get v k = Undefined"

section \<open>Thrown values\<close>

datatype provider = Tilopay | Onvo

text \<open>The text of an API error: a joined array of messages (ONVO only) or a single value.\<close>

datatype api_message = Joined "jsval list" | Plain jsval

text \<open>
  Each adapter has one error class (\<^verbatim>\<open>TilopayError\<close>, \<^verbatim>\<open>OnvoError\<close>); what
  distinguishes its instances is the message and whether \<^verbatim>\<open>statusCode\<close> is set. A
  \<open>reason\<close> stands for the message template together with the values inserted in it:
  \<^item> \<open>AmountInvalid a\<close>: "amount must be a positive integer in centavos (received a). ..."
  \<^item> \<open>CurrencyInvalid c\<close>: "currency must be "USD" or "CRC" (received "c")"
  \<^item> \<open>IntervalInvalid i\<close>: "interval must be "month" or "year" (received "i")"
  \<^item> \<open>UrlInvalid field v\<close>: "field must be a valid URL (received "v")"
  \<^item> \<open>SecretKeyMissing\<close>: "TILOPAY_SECRET_KEY is not configured" / "ONVO_SECRET_KEY is not configured"
  \<^item> \<open>NetworkFailure m\<close>: "Network error contacting ...: m"
  \<^item> \<open>ApiFailure status m code\<close>: "... API error (status): m", with
    \<^verbatim>\<open>statusCode = status\<close> and \<^verbatim>\<open>code\<close>/\<^verbatim>\<open>apiCode = code\<close>.
\<close>

datatype reason =
    AmountInvalid jsval
  | CurrencyInvalid jsval
  | IntervalInvalid jsval
  | UrlInvalid string jsval
  | SecretKeyMissing
  | NetworkFailure string
  | ApiFailure nat api_message jsval

text \<open>
  What a function can throw: an adapter error, a plain \<^verbatim>\<open>Error(message)\<close>, or an error
  of the runtime (\<^verbatim>\<open>TypeError\<close> on reading a property of null or calling a missing
  method, \<^verbatim>\<open>SyntaxError\<close> on parsing a body that is not JSON).
\<close>

datatype thrown =
    ProviderError provider reason
  | PlainError string
  | TypeError
  | SyntaxError

fun statusCode :: "thrown \<Rightarrow> nat option" where
  "statusCode (ProviderError p (ApiFailure s m c)) = Some s"
| "statusCode e = None"

text \<open>\<^verbatim>\<open>v.k\<close> for any value: reading a property of null or undefined throws.\<close>

definition getProp :: "jsval \<Rightarrow> string \<Rightarrow> thrown + jsval" where
  "getProp v k = (if nullish v then Inl TypeError else Inr (get v k))"

section \<open>Configuration (src/lib/config.ts)\<close>

record env =
  TILOPAY_SECRET_KEY :: "string option"
  TILOPAY_BASE_URL :: "string option"
  ONVO_SECRET_KEY :: "string option"
  NEXT_PUBLIC_BASE_URL :: "string option"

text \<open>\<^verbatim>\<open>process.env[key] || fallback\<close>\<close>

definition optionalEnv :: "string option \<Rightarrow> string \<Rightarrow> string" where
  "optionalEnv v fallback = (case v of None \<Rightarrow> fallback | Some s \<Rightarrow> if s = [] then fallback else s)"

text \<open>\<^verbatim>\<open>process.env.KEY ?? ''\<close>\<close>

definition envOrEmpty :: "string option \<Rightarrow> string" where
  "envOrEmpty v = (case v of None \<Rightarrow> [] | Some s \<Rightarrow> s)"

definition appConfig_baseUrl :: "env \<Rightarrow> string" where
  "appConfig_baseUrl e = optionalEnv (NEXT_PUBLIC_BASE_URL e) ''http://localhost:3000''"

definition tilopayConfig_baseUrl :: "env \<Rightarrow> string" where
  "tilopayConfig_baseUrl e = optionalEnv (TILOPAY_BASE_URL e) ''https://api.tilopay.com/v1''"

definition tilopayConfig_secretKey :: "env \<Rightarrow> string" where
  "tilopayConfig_secretKey e = envOrEmpty (TILOPAY_SECRET_KEY e)"

definition onvoConfig_baseUrl :: "string" where
  "onvoConfig_baseUrl = ''https://api.onvopay.com/v1''"

definition onvoConfig_secretKey :: "env \<Rightarrow> string" where
  "onvoConfig_secretKey e = envOrEmpty (ONVO_SECRET_KEY e)"

section \<open>The network\<close>

text \<open>
  One \<^verbatim>\<open>fetch\<close>: the method, the URL, the bearer credential and the object handed to
  \<^verbatim>\<open>JSON.stringify\<close> (fields whose value is \<open>Undefined\<close> are the ones stringify drops).
\<close>

record call =
  cmethod :: string
  curl :: string
  cauth :: string
  cbody :: "jsval option"

text \<open>
  A response: status, reason phrase, the raw text of the body, and what \<^verbatim>\<open>JSON.parse\<close>
  makes of it (\<open>None\<close> when the body is not JSON).
\<close>

record fetch_response =
  rstatus :: nat
  rstatusText :: string
  rtext :: string
  rjson :: "jsval option"

datatype fetch_outcome = Rejected string | Resolved fetch_response

text \<open>
  The outside world answers each call, possibly depending on the calls made before it. The
  state threaded through the program is the list of calls attempted so far, oldest first.
\<close>

type_synonym net = "call list \<Rightarrow> call \<Rightarrow> fetch_outcome"

type_synonym 'a io = "call list \<Rightarrow> (thrown + 'a) \<times> call list"

definition ok :: "fetch_response \<Rightarrow> bool" where
  "ok r = (200 \<le> rstatus r \<and> rstatus r \<le> 299)"

text \<open>Sequencing of awaited steps: a throw ends the sequence, keeping the calls made.\<close>

definition bind_io :: "'a io \<Rightarrow> ('a \<Rightarrow> 'b io) \<Rightarrow> 'b io" where
  "bind_io m f = (\<lambda>tr. case m tr of (Inl e, tr') \<Rightarrow> (Inl e, tr') | (Inr x, tr') \<Rightarrow> f x tr')"

text \<open>A step that makes no call.\<close>

definition pure_io :: "thrown + 'a \<Rightarrow> 'a io" where
  "pure_io r = (\<lambda>tr. (r, tr))"

definition fetch :: "net \<Rightarrow> call \<Rightarrow> call list \<Rightarrow> fetch_outcome \<times> call list" where
  "fetch net c tr = (net tr c, tr @ [c])"

section \<open>Validation (the same four checks in src/lib/tilopay.ts and src/lib/onvo.ts)\<close>

text \<open>\<^verbatim>\<open>Number.isInteger\<close>: false for every value that is not a finite whole number.\<close>

fun isInteger :: "jsval \<Rightarrow> bool" where
  "isInteger (JNumber (Fin r)) = (of_int \<lfloor>r\<rfloor> = r)"
| "isInteger v = False"

text \<open>\<^verbatim>\<open>n <= 0\<close> on a number.\<close>

fun num_le_zero :: "jsnum \<Rightarrow> bool" where
  "num_le_zero (Fin r) = (r \<le> 0)"
| "num_le_zero NegInf = True"
| "num_le_zero PosInf = False"
| "num_le_zero NaN = False"

text \<open>
  \<^verbatim>\<open>amount <= 0\<close> is only evaluated when \<^verbatim>\<open>Number.isInteger(amount)\<close> holds, so on
  a number.
\<close>

fun le_zero :: "jsval \<Rightarrow> bool" where
  "le_zero (JNumber n) = num_le_zero n"
| "le_zero v = False"

definition validateAmount :: "provider \<Rightarrow> jsval \<Rightarrow> thrown + unit" where
  "validateAmount p a =
     (if \<not> isInteger a \<or> le_zero a then Inl (ProviderError p (AmountInvalid a)) else Inr ())"

definition validateCurrency :: "provider \<Rightarrow> jsval \<Rightarrow> thrown + unit" where
  "validateCurrency p c =
     (if c \<noteq> JString ''USD'' \<and> c \<noteq> JString ''CRC''
      then Inl (ProviderError p (CurrencyInvalid c)) else Inr ())"

definition validateInterval :: "provider \<Rightarrow> jsval \<Rightarrow> thrown + unit" where
  "validateInterval p i =
     (if i \<noteq> JString ''month'' \<and> i \<noteq> JString ''year''
      then Inl (ProviderError p (IntervalInvalid i)) else Inr ())"

definition startsWith :: "string \<Rightarrow> string \<Rightarrow> bool" where
  "startsWith s p = (take (length p) s = p)"

text \<open>
  \<^verbatim>\<open>!value || !value.startsWith('http')\<close>: a truthy value that is not a string has no
  \<^verbatim>\<open>startsWith\<close> method, and calling it throws a TypeError.
\<close>

definition validateUrl :: "provider \<Rightarrow> jsval \<Rightarrow> string \<Rightarrow> thrown + unit" where
  "validateUrl p v field =
     (if \<not> truthy v then Inl (ProviderError p (UrlInvalid field v))
      else case v of
        JString s \<Rightarrow>
          if \<not> startsWith s ''http'' then Inl (ProviderError p (UrlInvalid field v)) else Inr ()
      | _ \<Rightarrow> Inl TypeError)"

text \<open>
  The argument object of \<^verbatim>\<open>createPaymentIntent\<close> and \<^verbatim>\<open>createSubscription\<close>. A
  payment-intent argument has no \<^verbatim>\<open>interval\<close> property, which reads as \<open>Undefined\<close>.
\<close>

record params =
  amount :: jsval
  currency :: jsval
  description :: jsval
  interval :: jsval
  success_url :: jsval
  cancel_url :: jsval

text \<open>\<^verbatim>\<open>...(description && { description })\<close>\<close>

definition spread_description :: "jsval \<Rightarrow> (string \<times> jsval) list" where
  "spread_description d = (if truthy d then [(''description'', d)] else [])"

section \<open>TiloPay client (src/lib/tilopay.ts)\<close>

text \<open>
  The part of \<^verbatim>\<open>request\<close> after the fetch settled. On a non-2xx response the parsed
  body replaces the empty \<^verbatim>\<open>apiError\<close> object when the body is JSON; a body that
  parsed to \<^verbatim>\<open>null\<close> makes \<^verbatim>\<open>apiError.message\<close> throw. The diagnostic
  \<^verbatim>\<open>console.error\<close> is not modelled.
\<close>

definition tilopay_settle :: "fetch_outcome \<Rightarrow> thrown + jsval" where
  "tilopay_settle out =
     (case out of
        Rejected m \<Rightarrow> Inl (ProviderError Tilopay (NetworkFailure m))
      | Resolved r \<Rightarrow>
          if \<not> ok r then
            (let apiError = (case rjson r of None \<Rightarrow> JObject [] | Some v \<Rightarrow> v) in
             if nullish apiError then Inl TypeError
             else
               let rawOrStatus = JString (if rtext r \<noteq> [] then rtext r else rstatusText r);
                   message = coalesce (coalesce (coalesce (get apiError ''message'')
                               (get apiError ''error'')) rawOrStatus)
                               (JString ''Unknown error'')
               in Inl (ProviderError Tilopay
                        (ApiFailure (rstatus r) (Plain message) (get apiError ''code''))))
          else (case rjson r of None \<Rightarrow> Inl SyntaxError | Some v \<Rightarrow> Inr v))"

text \<open>The call \<^verbatim>\<open>request\<close> hands to \<^verbatim>\<open>fetch\<close>.\<close>

definition tilopay_call :: "env \<Rightarrow> string \<Rightarrow> jsval \<Rightarrow> call" where
  "tilopay_call e path payload =
     \<lparr>cmethod = ''POST'', curl = tilopayConfig_baseUrl e @ path,
      cauth = tilopayConfig_secretKey e, cbody = Some payload\<rparr>"

definition tilopay_request :: "env \<Rightarrow> net \<Rightarrow> string \<Rightarrow> jsval \<Rightarrow> jsval io" where
  "tilopay_request e net path payload =
     (\<lambda>tr.
        if tilopayConfig_secretKey e = [] then (Inl (ProviderError Tilopay SecretKeyMissing), tr)
        else
          let (out, tr') = fetch net (tilopay_call e path payload) tr
          in (tilopay_settle out, tr'))"

definition tilopay_createPaymentIntent :: "env \<Rightarrow> net \<Rightarrow> params \<Rightarrow> jsval io" where
  "tilopay_createPaymentIntent e net ps =
     bind_io (pure_io (validateAmount Tilopay (amount ps))) (\<lambda>_.
     bind_io (pure_io (validateCurrency Tilopay (currency ps))) (\<lambda>_.
     bind_io (pure_io (validateUrl Tilopay (success_url ps) ''success_url'')) (\<lambda>_.
     bind_io (pure_io (validateUrl Tilopay (cancel_url ps) ''cancel_url'')) (\<lambda>_.
     tilopay_request e net ''/payment_intents''
       (JObject ([(''amount'', amount ps), (''currency'', currency ps)]
                 @ spread_description (description ps)
                 @ [(''success_url'', success_url ps), (''cancel_url'', cancel_url ps)]))))))"

definition tilopay_createSubscription :: "env \<Rightarrow> net \<Rightarrow> params \<Rightarrow> jsval io" where
  "tilopay_createSubscription e net ps =
     bind_io (pure_io (validateAmount Tilopay (amount ps))) (\<lambda>_.
     bind_io (pure_io (validateCurrency Tilopay (currency ps))) (\<lambda>_.
     bind_io (pure_io (validateInterval Tilopay (interval ps))) (\<lambda>_.
     bind_io (pure_io (validateUrl Tilopay (success_url ps) ''success_url'')) (\<lambda>_.
     bind_io (pure_io (validateUrl Tilopay (cancel_url ps) ''cancel_url'')) (\<lambda>_.
     tilopay_request e net ''/subscriptions''
       (JObject ([(''amount'', amount ps), (''currency'', currency ps),
                  (''interval'', interval ps)]
                 @ spread_description (description ps)
                 @ [(''success_url'', success_url ps), (''cancel_url'', cancel_url ps)])))))))"

section \<open>ONVO client (src/lib/onvo.ts)\<close>

text \<open>
  The part of \<^verbatim>\<open>request\<close> after the fetch settled. A message that is an array is
  joined; otherwise the first of message, error, reason phrase that is not nullish is used.
\<close>

definition onvo_settle :: "fetch_outcome \<Rightarrow> thrown + jsval" where
  "onvo_settle out =
     (case out of
        Rejected m \<Rightarrow> Inl (ProviderError Onvo (NetworkFailure m))
      | Resolved r \<Rightarrow>
          if \<not> ok r then
            (let apiError = (case rjson r of None \<Rightarrow> JObject [] | Some v \<Rightarrow> v) in
             if nullish apiError then Inl TypeError
             else
               let rawMessage = get apiError ''message'';
                   message =
                     (case rawMessage of
                        JArray xs \<Rightarrow> Joined xs
                      | _ \<Rightarrow> Plain (coalesce (coalesce (coalesce rawMessage
                                 (get apiError ''error'')) (JString (rstatusText r)))
                                 (JString ''Unknown error'')))
               in Inl (ProviderError Onvo
                        (ApiFailure (rstatus r) message (get apiError ''apiCode''))))
          else (case rjson r of None \<Rightarrow> Inl SyntaxError | Some v \<Rightarrow> Inr v))"

text \<open>The body is attached only when it is not \<^verbatim>\<open>undefined\<close>.\<close>

definition onvo_call :: "env \<Rightarrow> string \<Rightarrow> string \<Rightarrow> jsval \<Rightarrow> call" where
  "onvo_call e method path payload =
     \<lparr>cmethod = method, curl = onvoConfig_baseUrl @ path,
      cauth = onvoConfig_secretKey e,
      cbody = (if payload \<noteq> Undefined then Some payload else None)\<rparr>"

definition onvo_request :: "env \<Rightarrow> net \<Rightarrow> string \<Rightarrow> string \<Rightarrow> jsval \<Rightarrow> jsval io" where
  "onvo_request e net method path payload =
     (\<lambda>tr.
        if onvoConfig_secretKey e = [] then (Inl (ProviderError Onvo SecretKeyMissing), tr)
        else
          let (out, tr') = fetch net (onvo_call e method path payload) tr
          in (onvo_settle out, tr'))"

definition createPaymentIntentRequest :: "env \<Rightarrow> net \<Rightarrow> jsval \<Rightarrow> jsval \<Rightarrow> jsval \<Rightarrow> jsval io" where
  "createPaymentIntentRequest e net amt cur descr =
     onvo_request e net ''POST'' ''/payment-intents''
       (JObject ([(''amount'', amt), (''currency'', cur),
                  (''captureMethod'', JString ''automatic'')]
                 @ spread_description descr))"

definition createCustomer :: "env \<Rightarrow> net \<Rightarrow> jsval io" where
  "createCustomer e net = onvo_request e net ''POST'' ''/customers'' (JObject [])"

definition createProduct :: "env \<Rightarrow> net \<Rightarrow> jsval \<Rightarrow> jsval io" where
  "createProduct e net descr =
     onvo_request e net ''POST'' ''/products''
       (JObject [(''name'', coalesce descr (JString ''Subscription'')),
                 (''isActive'', JBool True), (''isShippable'', JBool False)])"

definition createPrice :: "env \<Rightarrow> net \<Rightarrow> jsval \<Rightarrow> jsval \<Rightarrow> jsval \<Rightarrow> jsval \<Rightarrow> jsval io" where
  "createPrice e net productId amt cur intv =
     onvo_request e net ''POST'' ''/prices''
       (JObject [(''productId'', productId), (''unitAmount'', amt), (''currency'', cur),
                 (''isActive'', JBool True), (''type'', JString ''recurring''),
                 (''recurring'', JObject [(''interval'', intv),
                                          (''intervalCount'', JNumber (Fin 1))])])"

definition createSubscriptionRequest :: "env \<Rightarrow> net \<Rightarrow> jsval \<Rightarrow> jsval \<Rightarrow> jsval io" where
  "createSubscriptionRequest e net customerId priceId =
     onvo_request e net ''POST'' ''/subscriptions''
       (JObject [(''customerId'', customerId),
                 (''paymentBehavior'', JString ''allow_incomplete''),
                 (''items'', JArray [JObject [(''priceId'', priceId),
                                              (''quantity'', JNumber (Fin 1))]])])"

definition createCheckoutSession :: "env \<Rightarrow> net \<Rightarrow> jsval \<Rightarrow> jsval \<Rightarrow> jsval \<Rightarrow> jsval io" where
  "createCheckoutSession e net lineItems redirectUrl cancelUrl =
     onvo_request e net ''POST'' ''/checkout/sessions/one-time-link''
       (JObject [(''lineItems'', lineItems), (''redirectUrl'', redirectUrl),
                 (''cancelUrl'', cancelUrl)])"

text \<open>
  \<^verbatim>\<open>product.id\<close>, \<^verbatim>\<open>price.id\<close>, \<^verbatim>\<open>customer.id\<close> and \<^verbatim>\<open>session.url\<close>
  are read when the argument of the next step is built, so a response that parsed to
  \<^verbatim>\<open>null\<close> throws there, after the calls already made.
\<close>

definition onvo_createPaymentIntent :: "env \<Rightarrow> net \<Rightarrow> params \<Rightarrow> jsval io" where
  "onvo_createPaymentIntent e net ps =
     bind_io (pure_io (validateAmount Onvo (amount ps))) (\<lambda>_.
     bind_io (pure_io (validateCurrency Onvo (currency ps))) (\<lambda>_.
     bind_io (pure_io (validateUrl Onvo (success_url ps) ''success_url'')) (\<lambda>_.
     bind_io (pure_io (validateUrl Onvo (cancel_url ps) ''cancel_url'')) (\<lambda>_.
     bind_io (createProduct e net (description ps)) (\<lambda>product.
     bind_io (pure_io (getProp product ''id'')) (\<lambda>productId.
     bind_io (onvo_request e net ''POST'' ''/prices''
                (JObject [(''productId'', productId), (''unitAmount'', amount ps),
                          (''currency'', currency ps), (''isActive'', JBool True),
                          (''type'', JString ''one_time'')])) (\<lambda>price.
     bind_io (createPaymentIntentRequest e net (amount ps) (currency ps) (description ps)) (\<lambda>_.
     bind_io (pure_io (getProp price ''id'')) (\<lambda>priceId.
     bind_io (createCheckoutSession e net
                (JArray [JObject [(''priceId'', priceId), (''quantity'', JNumber (Fin 1))]])
                (success_url ps) (cancel_url ps)) (\<lambda>session.
     bind_io (pure_io (getProp session ''url'')) (\<lambda>url.
     pure_io (Inr (JObject [(''url'', url)])))))))))))))"

definition onvo_createSubscription :: "env \<Rightarrow> net \<Rightarrow> params \<Rightarrow> jsval io" where
  "onvo_createSubscription e net ps =
     bind_io (pure_io (validateAmount Onvo (amount ps))) (\<lambda>_.
     bind_io (pure_io (validateCurrency Onvo (currency ps))) (\<lambda>_.
     bind_io (pure_io (validateInterval Onvo (interval ps))) (\<lambda>_.
     bind_io (pure_io (validateUrl Onvo (success_url ps) ''success_url'')) (\<lambda>_.
     bind_io (pure_io (validateUrl Onvo (cancel_url ps) ''cancel_url'')) (\<lambda>_.
     bind_io (createCustomer e net) (\<lambda>customer.
     bind_io (createProduct e net (description ps)) (\<lambda>product.
     bind_io (pure_io (getProp product ''id'')) (\<lambda>productId.
     bind_io (createPrice e net productId (amount ps) (currency ps) (interval ps)) (\<lambda>price.
     bind_io (pure_io (getProp customer ''id'')) (\<lambda>customerId.
     bind_io (pure_io (getProp price ''id'')) (\<lambda>priceId.
     bind_io (createSubscriptionRequest e net customerId priceId) (\<lambda>_.
     bind_io (createCheckoutSession e net
                (JArray [JObject [(''priceId'', priceId), (''quantity'', JNumber (Fin 1))]])
                (success_url ps) (cancel_url ps)) (\<lambda>session.
     bind_io (pure_io (getProp session ''url'')) (\<lambda>url.
     pure_io (Inr (JObject [(''url'', url)]))))))))))))))))"

section \<open>HTTP responses of the routes\<close>

text \<open>
  \<open>MessageOf e\<close> is \<^verbatim>\<open>e.message\<close>. \<open>UrlBody u\<close> is \<^verbatim>\<open>{ url: u }\<close> and
  \<open>ErrorBody m\<close> is \<^verbatim>\<open>{ error: m }\<close> (the generate route); \<open>SuccessBody u\<close> is
  \<^verbatim>\<open>{ success: true, url: u }\<close> and \<open>FailureBody m\<close> is
  \<^verbatim>\<open>{ success: false, error: m }\<close> (the create-link route).
\<close>

datatype message = Text string | MessageOf thrown

datatype resp_body =
    UrlBody jsval
  | ErrorBody message
  | SuccessBody jsval
  | FailureBody message

record http_response =
  status :: nat
  body :: resp_body

text \<open>
  A route either answers or lets an exception escape (\<open>Inl\<close>), together with the calls
  attempted.
\<close>

type_synonym route_result = "(thrown + http_response) \<times> call list"

section \<open>The generate route (src/app/api/generate/route.ts)\<close>

definition missing_fields_message :: string where
  "missing_fields_message =
     ''Missing required fields: amount, currency, type, provider, success_url, cancel_url''"

text \<open>
  The argument is what \<^verbatim>\<open>request.json()\<close> gave: \<open>None\<close> when it threw. Destructuring
  a body that is \<^verbatim>\<open>null\<close> throws outside the \<^verbatim>\<open>try\<close> block. Any
  \<^verbatim>\<open>interval\<close> in the body is never read: both recurring branches pass the literal
  \<^verbatim>\<open>'month'\<close>. Every value thrown in the model is an \<^verbatim>\<open>Error\<close>, so the catch
  block answers with its message.
\<close>

definition generate_missing :: "jsval \<Rightarrow> bool" where
  "generate_missing b =
     (\<not> truthy (get b ''amount'') \<or> \<not> truthy (get b ''currency'') \<or> \<not> truthy (get b ''type'')
      \<or> \<not> truthy (get b ''provider'') \<or> \<not> truthy (get b ''success_url'')
      \<or> \<not> truthy (get b ''cancel_url''))"

text \<open>
  The fields the route hands to an adapter, and the \<^verbatim>\<open>try\<close> block: the selected
  adapter operation, then \<^verbatim>\<open>result.url\<close>.
\<close>

definition generate_params :: "jsval \<Rightarrow> params" where
  "generate_params b =
     \<lparr>amount = get b ''amount'', currency = get b ''currency'',
      description = get b ''description'', interval = Undefined,
      success_url = get b ''success_url'', cancel_url = get b ''cancel_url''\<rparr>"

definition generate_try :: "env \<Rightarrow> net \<Rightarrow> jsval \<Rightarrow> jsval io" where
  "generate_try e net b =
     (let once = generate_params b;
          monthly = once\<lparr>interval := JString ''month''\<rparr>;
          run =
            (if get b ''provider'' = JString ''tilopay'' then
               (if get b ''type'' = JString ''recurring''
                then tilopay_createSubscription e net monthly
                else tilopay_createPaymentIntent e net once)
             else
               (if get b ''type'' = JString ''recurring''
                then onvo_createSubscription e net monthly
                else onvo_createPaymentIntent e net once))
      in bind_io run (\<lambda>result. pure_io (getProp result ''url'')))"

definition generate_POST :: "env \<Rightarrow> net \<Rightarrow> jsval option \<Rightarrow> call list \<Rightarrow> route_result" where
  "generate_POST e net parsed tr =
     (case parsed of
        None \<Rightarrow> (Inr \<lparr>status = 400, body = ErrorBody (Text ''Invalid JSON body'')\<rparr>, tr)
      | Some b \<Rightarrow>
          if nullish b then (Inl TypeError, tr)
          else if generate_missing b
          then (Inr \<lparr>status = 400, body = ErrorBody (Text missing_fields_message)\<rparr>, tr)
          else
            (case generate_try e net b tr of
               (Inr url, tr') \<Rightarrow> (Inr \<lparr>status = 200, body = UrlBody url\<rparr>, tr')
             | (Inl err, tr') \<Rightarrow>
                 (Inr \<lparr>status = 500, body = ErrorBody (MessageOf err)\<rparr>, tr')))"

section \<open>The create-link route (src/app/api/tilopay/create-link/route.ts)\<close>

fun typeof :: "jsval \<Rightarrow> string" where
  "typeof Undefined = ''undefined''"
| "typeof Null = ''object''"
| "typeof (JBool b) = ''boolean''"
| "typeof (JNumber n) = ''number''"
| "typeof (JString s) = ''string''"
| "typeof (JArray xs) = ''object''"
| "typeof (JObject fs) = ''object''"

fun isArray :: "jsval \<Rightarrow> bool" where
  "isArray (JArray xs) = True"
| "isArray v = False"

fun isFinite :: "jsnum \<Rightarrow> bool" where
  "isFinite (Fin r) = True"
| "isFinite n = False"

text \<open>\<^verbatim>\<open>n * 100\<close> and \<^verbatim>\<open>Math.round\<close> (halves round up), on exact rationals.\<close>

fun times100 :: "jsnum \<Rightarrow> jsnum" where
  "times100 (Fin r) = Fin (r * 100)"
| "times100 n = n"

fun Math_round :: "jsnum \<Rightarrow> jsnum" where
  "Math_round (Fin r) = Fin (of_int \<lfloor>r + 1 / 2\<rfloor>)"
| "Math_round n = n"

text \<open>\<^verbatim>\<open>trim\<close>, for the ASCII white space characters.\<close>

definition isSpace :: "char \<Rightarrow> bool" where
  "isSpace c = (c \<in> set [CHR '' '', CHR 0x09, CHR 0x0A, CHR 0x0B, CHR 0x0C, CHR 0x0D])"

definition trim :: "string \<Rightarrow> string" where
  "trim s = rev (dropWhile isSpace (rev (dropWhile isSpace s)))"

datatype CreateLinkRequestBody =
  CreateLinkRequestBody (b_amount: jsnum) (b_currency: jsval) (b_description: jsval)
    (b_isRecurring: bool)

definition currency_message :: string where
  "currency_message =
     ''currency must be '' @ [CHR 0x22] @ ''USD'' @ [CHR 0x22] @ '' or ''
       @ [CHR 0x22] @ ''CRC'' @ [CHR 0x22]"

definition validateBody :: "jsval \<Rightarrow> thrown + CreateLinkRequestBody" where
  "validateBody raw =
     (if \<not> truthy raw \<or> typeof raw \<noteq> ''object'' \<or> isArray raw
      then Inl (PlainError ''Request body must be a JSON object'')
      else
        case get raw ''amount'' of
          JNumber n \<Rightarrow>
            if \<not> isFinite n \<or> num_le_zero n
            then Inl (PlainError ''amount must be a positive number'')
            else if get raw ''currency'' \<noteq> JString ''USD''
                    \<and> get raw ''currency'' \<noteq> JString ''CRC''
            then Inl (PlainError currency_message)
            else
              (case get raw ''isRecurring'' of
                 JBool r \<Rightarrow>
                   let d = get raw ''description'' in
                   if d \<noteq> Undefined \<and> typeof d \<noteq> ''string''
                   then Inl (PlainError ''description must be a string'')
                   else Inr (CreateLinkRequestBody n (get raw ''currency'')
                               (case d of
                                  JString s \<Rightarrow>
                                    (if trim s = [] then Undefined else JString (trim s))
                                | _ \<Rightarrow> Undefined)
                               r)
               | _ \<Rightarrow> Inl (PlainError ''isRecurring must be a boolean''))
        | _ \<Rightarrow> Inl (PlainError ''amount must be a positive number''))"

fun instanceof_TilopayError :: "thrown \<Rightarrow> bool" where
  "instanceof_TilopayError (ProviderError Tilopay r) = True"
| "instanceof_TilopayError e = False"

text \<open>\<^verbatim>\<open>err instanceof TilopayError && err.statusCode ? 502 : 500\<close>\<close>

definition failure_status :: "thrown \<Rightarrow> nat" where
  "failure_status err =
     (if instanceof_TilopayError err
         \<and> (case statusCode err of None \<Rightarrow> False | Some s \<Rightarrow> s \<noteq> 0)
      then 502 else 500)"

text \<open>
  The amount in minor units, the two redirect URLs, and the \<^verbatim>\<open>try\<close> block: the TiloPay
  operation selected by \<^verbatim>\<open>isRecurring\<close>, then \<^verbatim>\<open>result.url\<close>.
\<close>

definition amountInCents :: "CreateLinkRequestBody \<Rightarrow> jsval" where
  "amountInCents b = JNumber (Math_round (times100 (b_amount b)))"

definition create_link_params :: "env \<Rightarrow> CreateLinkRequestBody \<Rightarrow> params" where
  "create_link_params e b =
     \<lparr>amount = amountInCents b, currency = b_currency b, description = b_description b,
      interval = Undefined,
      success_url = JString (appConfig_baseUrl e @ ''/success?provider=tilopay''),
      cancel_url = JString (appConfig_baseUrl e @ ''/cancel?provider=tilopay'')\<rparr>"

definition create_link_try :: "env \<Rightarrow> net \<Rightarrow> CreateLinkRequestBody \<Rightarrow> jsval io" where
  "create_link_try e net b =
     bind_io
       (if b_isRecurring b
        then tilopay_createSubscription e net
               ((create_link_params e b)\<lparr>interval := JString ''month''\<rparr>)
        else tilopay_createPaymentIntent e net (create_link_params e b))
       (\<lambda>result. pure_io (getProp result ''url''))"

definition create_link_POST :: "env \<Rightarrow> net \<Rightarrow> jsval option \<Rightarrow> call list \<Rightarrow> route_result" where
  "create_link_POST e net parsed tr =
     (case parsed of
        None \<Rightarrow> (Inr \<lparr>status = 400, body = FailureBody (Text ''Invalid JSON body'')\<rparr>, tr)
      | Some rawBody \<Rightarrow>
          (case validateBody rawBody of
             Inl err \<Rightarrow> (Inr \<lparr>status = 400, body = FailureBody (MessageOf err)\<rparr>, tr)
           | Inr b \<Rightarrow>
               (case create_link_try e net b tr of
                  (Inr url, tr') \<Rightarrow> (Inr \<lparr>status = 200, body = SuccessBody url\<rparr>, tr')
                | (Inl err, tr') \<Rightarrow>
                    (Inr \<lparr>status = failure_status err, body = FailureBody (MessageOf err)\<rparr>,
                     tr'))))"

section \<open>Vocabulary of the specification\<close>

text \<open>
  The error taxonomy of the specification, read off the thrown value: the four checks of an
  adapter and the body checks of the create-link route are validation errors, a missing
  secret key is a configuration error, a rejected fetch is a network error, a non-2xx
  response is an API error, and anything thrown by the runtime is unexpected.
\<close>

datatype error_kind =
    ValidationError
  | ProviderConfigError
  | ProviderNetworkError
  | ProviderApiError
  | UnexpectedError

fun kind_of :: "thrown \<Rightarrow> error_kind" where
  "kind_of (ProviderError p (AmountInvalid a)) = ValidationError"
| "kind_of (ProviderError p (CurrencyInvalid c)) = ValidationError"
| "kind_of (ProviderError p (IntervalInvalid i)) = ValidationError"
| "kind_of (ProviderError p (UrlInvalid f v)) = ValidationError"
| "kind_of (ProviderError p SecretKeyMissing) = ProviderConfigError"
| "kind_of (ProviderError p (NetworkFailure m)) = ProviderNetworkError"
| "kind_of (ProviderError p (ApiFailure s m c)) = ProviderApiError"
| "kind_of (PlainError m) = ValidationError"
| "kind_of TypeError = UnexpectedError"
| "kind_of SyntaxError = UnexpectedError"

text \<open>The amounts a call carries: the top-level fields \<^verbatim>\<open>amount\<close> and \<^verbatim>\<open>unitAmount\<close>
  of its payload.\<close>

definition payload_amounts :: "call \<Rightarrow> jsval list" where
  "payload_amounts c =
     (case cbody c of
        Some (JObject fs) \<Rightarrow>
          map snd (filter (\<lambda>kv. fst kv = ''amount'' \<or> fst kv = ''unitAmount'') fs)
      | _ \<Rightarrow> [])"

text \<open>A positive whole number, as the adapters require of an amount.\<close>

fun positive_integer :: "jsval \<Rightarrow> bool" where
  "positive_integer (JNumber (Fin r)) = (of_int \<lfloor>r\<rfloor> = r \<and> 0 < r)"
| "positive_integer v = False"

text \<open>The calls an operation added to the list of calls it started from.\<close>

definition new_calls :: "call list \<Rightarrow> 'a \<times> call list \<Rightarrow> call list" where
  "new_calls tr r = drop (length tr) (snd r)"

text \<open>A top-level field of the payload of a call.\<close>

definition payload_field :: "call \<Rightarrow> string \<Rightarrow> jsval" where
  "payload_field c k = (case cbody c of None \<Rightarrow> Undefined | Some b \<Rightarrow> get b k)"

text \<open>
  What \<^verbatim>\<open>request\<close> made of the answer to the \<open>i\<close>-th new call (counting from 0), given
  the calls before it: \<open>Inl\<close> when that call failed.
\<close>

definition onvo_answer :: "net \<Rightarrow> call list \<Rightarrow> call list \<Rightarrow> nat \<Rightarrow> thrown + jsval" where
  "onvo_answer net tr new i = onvo_settle (net (tr @ take i new) (new ! i))"

definition onvo_one_time_paths :: "string list" where
  "onvo_one_time_paths = map (\<lambda>p. onvoConfig_baseUrl @ p)
     [''/products'', ''/prices'', ''/payment-intents'', ''/checkout/sessions/one-time-link'']"

definition onvo_subscription_paths :: "string list" where
  "onvo_subscription_paths = map (\<lambda>p. onvoConfig_baseUrl @ p)
     [''/customers'', ''/products'', ''/prices'', ''/subscriptions'',
      ''/checkout/sessions/one-time-link'']"

text \<open>The checks an operation runs before its first request, in the order of the source.\<close>

definition bind_sum :: "thrown + 'a \<Rightarrow> ('a \<Rightarrow> thrown + 'b) \<Rightarrow> thrown + 'b" where
  "bind_sum r f = (case r of Inl err \<Rightarrow> Inl err | Inr x \<Rightarrow> f x)"

definition payment_checks :: "provider \<Rightarrow> params \<Rightarrow> thrown + unit" where
  "payment_checks p ps =
     bind_sum (validateAmount p (amount ps)) (\<lambda>_.
     bind_sum (validateCurrency p (currency ps)) (\<lambda>_.
     bind_sum (validateUrl p (success_url ps) ''success_url'') (\<lambda>_.
     validateUrl p (cancel_url ps) ''cancel_url'')))"

definition subscription_checks :: "provider \<Rightarrow> params \<Rightarrow> thrown + unit" where
  "subscription_checks p ps =
     bind_sum (validateAmount p (amount ps)) (\<lambda>_.
     bind_sum (validateCurrency p (currency ps)) (\<lambda>_.
     bind_sum (validateInterval p (interval ps)) (\<lambda>_.
     bind_sum (validateUrl p (success_url ps) ''success_url'') (\<lambda>_.
     validateUrl p (cancel_url ps) ''cancel_url''))))"

text \<open>The calls of the two ONVO sequences, each with the payload the source builds for it.\<close>

definition customer_call :: "env \<Rightarrow> call" where
  "customer_call e = onvo_call e ''POST'' ''/customers'' (JObject [])"

definition product_call :: "env \<Rightarrow> params \<Rightarrow> call" where
  "product_call e ps =
     onvo_call e ''POST'' ''/products''
       (JObject [(''name'', coalesce (description ps) (JString ''Subscription'')),
                 (''isActive'', JBool True), (''isShippable'', JBool False)])"

definition one_time_price_call :: "env \<Rightarrow> params \<Rightarrow> jsval \<Rightarrow> call" where
  "one_time_price_call e ps product =
     onvo_call e ''POST'' ''/prices''
       (JObject [(''productId'', get product ''id''), (''unitAmount'', amount ps),
                 (''currency'', currency ps), (''isActive'', JBool True),
                 (''type'', JString ''one_time'')])"

definition recurring_price_call :: "env \<Rightarrow> params \<Rightarrow> jsval \<Rightarrow> call" where
  "recurring_price_call e ps product =
     onvo_call e ''POST'' ''/prices''
       (JObject [(''productId'', get product ''id''), (''unitAmount'', amount ps),
                 (''currency'', currency ps), (''isActive'', JBool True),
                 (''type'', JString ''recurring''),
                 (''recurring'', JObject [(''interval'', interval ps),
                                          (''intervalCount'', JNumber (Fin 1))])])"

definition payment_intent_call :: "env \<Rightarrow> params \<Rightarrow> call" where
  "payment_intent_call e ps =
     onvo_call e ''POST'' ''/payment-intents''
       (JObject ([(''amount'', amount ps), (''currency'', currency ps),
                  (''captureMethod'', JString ''automatic'')]
                 @ spread_description (description ps)))"

definition subscription_call :: "env \<Rightarrow> jsval \<Rightarrow> jsval \<Rightarrow> call" where
  "subscription_call e customer price =
     onvo_call e ''POST'' ''/subscriptions''
       (JObject [(''customerId'', get customer ''id''),
                 (''paymentBehavior'', JString ''allow_incomplete''),
                 (''items'', JArray [JObject [(''priceId'', get price ''id''),
                                              (''quantity'', JNumber (Fin 1))]])])"

definition checkout_call :: "env \<Rightarrow> params \<Rightarrow> jsval \<Rightarrow> call" where
  "checkout_call e ps price =
     onvo_call e ''POST'' ''/checkout/sessions/one-time-link''
       (JObject [(''lineItems'', JArray [JObject [(''priceId'', get price ''id''),
                                                  (''quantity'', JNumber (Fin 1))]]),
                 (''redirectUrl'', success_url ps), (''cancelUrl'', cancel_url ps)])"

text \<open>The single call of each TiloPay operation.\<close>

definition tilopay_payment_call :: "env \<Rightarrow> params \<Rightarrow> call" where
  "tilopay_payment_call e ps =
     tilopay_call e ''/payment_intents''
       (JObject ([(''amount'', amount ps), (''currency'', currency ps)]
                 @ spread_description (description ps)
                 @ [(''success_url'', success_url ps), (''cancel_url'', cancel_url ps)]))"

definition tilopay_subscription_call :: "env \<Rightarrow> params \<Rightarrow> call" where
  "tilopay_subscription_call e ps =
     tilopay_call e ''/subscriptions''
       (JObject ([(''amount'', amount ps), (''currency'', currency ps),
                  (''interval'', interval ps)]
                 @ spread_description (description ps)
                 @ [(''success_url'', success_url ps), (''cancel_url'', cancel_url ps)]))"

section \<open>Example inputs\<close>

text \<open>An environment with both secret keys set, and one with none.\<close>

definition env_configured :: env where
  "env_configured =
     \<lparr>TILOPAY_SECRET_KEY = Some ''sk_tilopay'', TILOPAY_BASE_URL = None,
      ONVO_SECRET_KEY = Some ''sk_onvo'', NEXT_PUBLIC_BASE_URL = None\<rparr>"

definition env_unconfigured :: env where
  "env_unconfigured =
     \<lparr>TILOPAY_SECRET_KEY = None, TILOPAY_BASE_URL = None,
      ONVO_SECRET_KEY = Some [], NEXT_PUBLIC_BASE_URL = None\<rparr>"

text \<open>
  A processor that answers every call with 200 and a body holding an identifier (the URL of
  the call that created the resource) and a checkout URL.
\<close>

definition response_ok :: "call \<Rightarrow> fetch_response" where
  "response_ok c =
     \<lparr>rstatus = 200, rstatusText = ''OK'', rtext = [],
      rjson = Some (JObject [(''id'', JString (curl c)),
                             (''url'', JString ''https://pay.example/abc'')])\<rparr>"

definition net_ok :: net where
  "net_ok tr c = Resolved (response_ok c)"

text \<open>A processor that cannot be reached.\<close>

definition net_down :: net where
  "net_down tr c = Rejected ''ECONNREFUSED''"

text \<open>A processor whose call number \<open>n\<close> (counting from 0) answers 503 with no JSON body.\<close>

definition net_503_at :: "nat \<Rightarrow> net" where
  "net_503_at n tr c =
     (if length tr = n
      then Resolved \<lparr>rstatus = 503, rstatusText = ''Service Unavailable'',
                     rtext = [], rjson = None\<rparr>
      else Resolved (response_ok c))"

text \<open>A processor that answers 200 with the empty object.\<close>

definition net_empty_object :: net where
  "net_empty_object tr c =
     Resolved \<lparr>rstatus = 200, rstatusText = ''OK'', rtext = ''{}'', rjson = Some (JObject [])\<rparr>"

text \<open>Arguments of an adapter operation: 1000 minor units in USD.\<close>

definition params_usd :: "jsval \<Rightarrow> params" where
  "params_usd a =
     \<lparr>amount = a, currency = JString ''USD'', description = Undefined,
      interval = Undefined, success_url = JString ''https://shop.example/ok'',
      cancel_url = JString ''https://shop.example/no''\<rparr>"

text \<open>Arguments of a subscription: 550 minor units in CRC, monthly.\<close>

definition params_crc_monthly :: params where
  "params_crc_monthly =
     \<lparr>amount = JNumber (Fin 550), currency = JString ''CRC'', description = Undefined,
      interval = JString ''month'', success_url = JString ''https://shop.example/ok'',
      cancel_url = JString ''https://shop.example/no''\<rparr>"

text \<open>
  A body for the generate route, in USD, with the given amount, type and provider, followed
  by any further fields.
\<close>

definition generate_body :: "jsval \<Rightarrow> string \<Rightarrow> string \<Rightarrow> (string \<times> jsval) list \<Rightarrow> jsval" where
  "generate_body amt ty prov extra =
     JObject ([(''amount'', amt), (''currency'', JString ''USD''), (''type'', JString ty),
               (''provider'', JString prov),
               (''success_url'', JString ''https://shop.example/ok''),
               (''cancel_url'', JString ''https://shop.example/no'')] @ extra)"

text \<open>A body for the create-link route, in USD.\<close>

definition link_body :: "jsnum \<Rightarrow> bool \<Rightarrow> jsval" where
  "link_body amt recurring =
     JObject [(''amount'', JNumber amt), (''currency'', JString ''USD''),
              (''isRecurring'', JBool recurring)]"

section \<open>Basic facts\<close>

lemma bind_pure_Inl: "bind_io (pure_io (Inl e)) f tr = (Inl e, tr)"
  by (simp add: bind_io_def pure_io_def)

lemma bind_pure_Inr: "bind_io (pure_io (Inr x)) f tr = f x tr"
  by (simp add: bind_io_def pure_io_def)

lemma pure_io_apply: "pure_io r tr = (r, tr)"
  by (simp add: pure_io_def)

lemma bind_getProp:
  "bind_io (pure_io (getProp v k)) f tr =
     (if nullish v then (Inl TypeError, tr) else f (get v k) tr)"
  by (simp add: bind_io_def pure_io_def getProp_def)

lemma validateAmount_iff:
  "validateAmount p a =
     (if positive_integer a then Inr () else Inl (ProviderError p (AmountInvalid a)))"
  by (cases a rule: positive_integer.cases) (auto simp: validateAmount_def)

section \<open>Amounts that are not positive integers never leave the adapter\<close>

text \<open>
  C9. Each of the four adapter operations checks the amount first: when the amount is not a
  positive whole number (a decimal such as 10.5, zero, a negative number, or no number at
  all) the operation throws the amount error and the list of calls is unchanged, so no
  request was made.
\<close>

theorem amount_rejected_before_any_request:
  assumes "\<not> positive_integer (amount ps)"
  shows "tilopay_createPaymentIntent e net ps tr
           = (Inl (ProviderError Tilopay (AmountInvalid (amount ps))), tr)
       \<and> tilopay_createSubscription e net ps tr
           = (Inl (ProviderError Tilopay (AmountInvalid (amount ps))), tr)
       \<and> onvo_createPaymentIntent e net ps tr
           = (Inl (ProviderError Onvo (AmountInvalid (amount ps))), tr)
       \<and> onvo_createSubscription e net ps tr
           = (Inl (ProviderError Onvo (AmountInvalid (amount ps))), tr)"
  using assms
  by (simp add: tilopay_createPaymentIntent_def tilopay_createSubscription_def
      onvo_createPaymentIntent_def onvo_createSubscription_def validateAmount_iff
      bind_pure_Inl)

theorem amount_rejected_before_any_request_witness:
  "\<not> positive_integer (JNumber (Fin (21 / 2)))
   \<and> tilopay_createPaymentIntent env_configured net_ok (params_usd (JNumber (Fin (21 / 2)))) []
       = (Inl (ProviderError Tilopay (AmountInvalid (JNumber (Fin (21 / 2))))), [])
   \<and> onvo_createSubscription env_configured net_ok (params_usd (JNumber (Fin (21 / 2)))) []
       = (Inl (ProviderError Onvo (AmountInvalid (JNumber (Fin (21 / 2))))), [])"
proof -
  have a: "amount (params_usd (JNumber (Fin (21 / 2)))) = JNumber (Fin (21 / 2))"
    by (simp add: params_usd_def)
  have n: "\<not> positive_integer (JNumber (Fin (21 / 2)))"
    by code_simp
  have h: "\<not> positive_integer (amount (params_usd (JNumber (Fin (21 / 2)))))"
    unfolding a by (rule n)
  show ?thesis
    using n amount_rejected_before_any_request [OF h, of env_configured net_ok "[]"]
    by (simp add: a del: positive_integer.simps)
qed

lemma amount_examples:
  "\<not> positive_integer (JNumber (Fin 0))"
  "\<not> positive_integer (JNumber (Fin (- 5)))"
  "\<not> positive_integer (JString ''10'')"
  "positive_integer (JNumber (Fin 1000))"
  by simp_all

section \<open>Facts about the checks and the request helpers\<close>

lemma bind_pure:
  "bind_io (pure_io r) f tr = (case r of Inl err \<Rightarrow> (Inl err, tr) | Inr x \<Rightarrow> f x tr)"
  by (simp add: bind_io_def pure_io_def split: sum.splits)

lemma payment_checks_Inr:
  "payment_checks p ps = Inr u \<longleftrightarrow>
     validateAmount p (amount ps) = Inr () \<and> validateCurrency p (currency ps) = Inr ()
     \<and> validateUrl p (success_url ps) ''success_url'' = Inr ()
     \<and> validateUrl p (cancel_url ps) ''cancel_url'' = Inr ()"
  by (auto simp: payment_checks_def bind_sum_def split: sum.splits)

lemma subscription_checks_Inr:
  "subscription_checks p ps = Inr u \<longleftrightarrow>
     validateAmount p (amount ps) = Inr () \<and> validateCurrency p (currency ps) = Inr ()
     \<and> validateInterval p (interval ps) = Inr ()
     \<and> validateUrl p (success_url ps) ''success_url'' = Inr ()
     \<and> validateUrl p (cancel_url ps) ''cancel_url'' = Inr ()"
  by (auto simp: subscription_checks_def bind_sum_def split: sum.splits)

lemma checks_fail:
  "payment_checks Tilopay ps = Inl err \<Longrightarrow> tilopay_createPaymentIntent e net ps tr = (Inl err, tr)"
  "subscription_checks Tilopay ps = Inl err \<Longrightarrow> tilopay_createSubscription e net ps tr = (Inl err, tr)"
  "payment_checks Onvo ps = Inl err \<Longrightarrow> onvo_createPaymentIntent e net ps tr = (Inl err, tr)"
  "subscription_checks Onvo ps = Inl err \<Longrightarrow> onvo_createSubscription e net ps tr = (Inl err, tr)"
  by (auto simp: payment_checks_def subscription_checks_def bind_sum_def bind_pure
      tilopay_createPaymentIntent_def tilopay_createSubscription_def
      onvo_createPaymentIntent_def onvo_createSubscription_def split: sum.splits)

lemma tilopay_request_eq:
  "tilopay_request e net path payload tr =
     (if tilopayConfig_secretKey e = [] then (Inl (ProviderError Tilopay SecretKeyMissing), tr)
      else (tilopay_settle (net tr (tilopay_call e path payload)),
            tr @ [tilopay_call e path payload]))"
  by (simp add: tilopay_request_def fetch_def)

lemma onvo_request_eq:
  "onvo_request e net m path payload tr =
     (if onvoConfig_secretKey e = [] then (Inl (ProviderError Onvo SecretKeyMissing), tr)
      else (onvo_settle (net tr (onvo_call e m path payload)),
            tr @ [onvo_call e m path payload]))"
  by (simp add: onvo_request_def fetch_def)

lemma bind_onvo_request:
  "onvoConfig_secretKey e \<noteq> [] \<Longrightarrow>
   bind_io (onvo_request e net m p b) f tr =
     (case onvo_settle (net tr (onvo_call e m p b)) of
        Inl err \<Rightarrow> (Inl err, tr @ [onvo_call e m p b])
      | Inr v \<Rightarrow> f v (tr @ [onvo_call e m p b]))"
  by (simp add: bind_io_def onvo_request_eq split: sum.splits)

lemma bind_onvo_request_unconfigured:
  "onvoConfig_secretKey e = [] \<Longrightarrow>
   bind_io (onvo_request e net m p b) f tr = (Inl (ProviderError Onvo SecretKeyMissing), tr)"
  by (simp add: bind_io_def onvo_request_eq)

lemma tilopay_createPaymentIntent_checked:
  "payment_checks Tilopay ps = Inr u \<Longrightarrow>
   tilopay_createPaymentIntent e net ps tr =
     (if tilopayConfig_secretKey e = [] then (Inl (ProviderError Tilopay SecretKeyMissing), tr)
      else (tilopay_settle (net tr (tilopay_payment_call e ps)),
            tr @ [tilopay_payment_call e ps]))"
  by (simp add: payment_checks_Inr tilopay_createPaymentIntent_def bind_pure_Inr
      tilopay_request_eq tilopay_payment_call_def)

lemma tilopay_createSubscription_checked:
  "subscription_checks Tilopay ps = Inr u \<Longrightarrow>
   tilopay_createSubscription e net ps tr =
     (if tilopayConfig_secretKey e = [] then (Inl (ProviderError Tilopay SecretKeyMissing), tr)
      else (tilopay_settle (net tr (tilopay_subscription_call e ps)),
            tr @ [tilopay_subscription_call e ps]))"
  by (simp add: subscription_checks_Inr tilopay_createSubscription_def bind_pure_Inr
      tilopay_request_eq tilopay_subscription_call_def)

lemma onvo_unconfigured:
  "onvoConfig_secretKey e = [] \<Longrightarrow> payment_checks Onvo ps = Inr u \<Longrightarrow>
     onvo_createPaymentIntent e net ps tr = (Inl (ProviderError Onvo SecretKeyMissing), tr)"
  "onvoConfig_secretKey e = [] \<Longrightarrow> subscription_checks Onvo ps = Inr u \<Longrightarrow>
     onvo_createSubscription e net ps tr = (Inl (ProviderError Onvo SecretKeyMissing), tr)"
  by (simp_all add: payment_checks_Inr subscription_checks_Inr onvo_createPaymentIntent_def
      onvo_createSubscription_def bind_pure_Inr createProduct_def createCustomer_def
      bind_onvo_request_unconfigured)

lemma onvo_createPaymentIntent_script:
  assumes cfg: "onvoConfig_secretKey e \<noteq> []" and chk: "payment_checks Onvo ps = Inr u"
  shows "onvo_createPaymentIntent e net ps tr =
    (case onvo_settle (net tr (product_call e ps)) of
       Inl err \<Rightarrow> (Inl err, tr @ [product_call e ps])
     | Inr v1 \<Rightarrow>
        (if nullish v1 then (Inl TypeError, tr @ [product_call e ps])
         else
           (case onvo_settle (net (tr @ [product_call e ps]) (one_time_price_call e ps v1)) of
              Inl err \<Rightarrow> (Inl err, tr @ [product_call e ps, one_time_price_call e ps v1])
            | Inr v2 \<Rightarrow>
               (case onvo_settle (net (tr @ [product_call e ps, one_time_price_call e ps v1])
                                   (payment_intent_call e ps)) of
                  Inl err \<Rightarrow>
                    (Inl err, tr @ [product_call e ps, one_time_price_call e ps v1,
                                    payment_intent_call e ps])
                | Inr v3 \<Rightarrow>
                   (if nullish v2
                    then (Inl TypeError, tr @ [product_call e ps, one_time_price_call e ps v1,
                                               payment_intent_call e ps])
                    else
                      (case onvo_settle
                              (net (tr @ [product_call e ps, one_time_price_call e ps v1,
                                          payment_intent_call e ps])
                                 (checkout_call e ps v2)) of
                         Inl err \<Rightarrow>
                           (Inl err, tr @ [product_call e ps, one_time_price_call e ps v1,
                                           payment_intent_call e ps, checkout_call e ps v2])
                       | Inr v4 \<Rightarrow>
                           (if nullish v4
                            then (Inl TypeError,
                                  tr @ [product_call e ps, one_time_price_call e ps v1,
                                        payment_intent_call e ps, checkout_call e ps v2])
                            else (Inr (JObject [(''url'', get v4 ''url'')]),
                                  tr @ [product_call e ps, one_time_price_call e ps v1,
                                        payment_intent_call e ps,
                                        checkout_call e ps v2]))))))))"
  using chk
  unfolding onvo_createPaymentIntent_def
    createProduct_def createPaymentIntentRequest_def createCheckoutSession_def
    product_call_def one_time_price_call_def payment_intent_call_def checkout_call_def
  by (simp add: payment_checks_Inr bind_pure_Inr bind_onvo_request[OF cfg] bind_getProp
      pure_io_apply cong: sum.case_cong if_cong)

lemma onvo_createSubscription_script:
  assumes cfg: "onvoConfig_secretKey e \<noteq> []" and chk: "subscription_checks Onvo ps = Inr u"
  shows "onvo_createSubscription e net ps tr =
    (case onvo_settle (net tr (customer_call e)) of
       Inl err \<Rightarrow> (Inl err, tr @ [customer_call e])
     | Inr v1 \<Rightarrow>
        (case onvo_settle (net (tr @ [customer_call e]) (product_call e ps)) of
           Inl err \<Rightarrow> (Inl err, tr @ [customer_call e, product_call e ps])
         | Inr v2 \<Rightarrow>
            (if nullish v2 then (Inl TypeError, tr @ [customer_call e, product_call e ps])
             else
               (case onvo_settle (net (tr @ [customer_call e, product_call e ps])
                                    (recurring_price_call e ps v2)) of
                  Inl err \<Rightarrow>
                    (Inl err, tr @ [customer_call e, product_call e ps,
                                    recurring_price_call e ps v2])
                | Inr v3 \<Rightarrow>
                   (if nullish v1
                    then (Inl TypeError, tr @ [customer_call e, product_call e ps,
                                               recurring_price_call e ps v2])
                    else if nullish v3
                    then (Inl TypeError, tr @ [customer_call e, product_call e ps,
                                               recurring_price_call e ps v2])
                    else
                      (case onvo_settle
                              (net (tr @ [customer_call e, product_call e ps,
                                          recurring_price_call e ps v2])
                                 (subscription_call e v1 v3)) of
                         Inl err \<Rightarrow>
                           (Inl err, tr @ [customer_call e, product_call e ps,
                                           recurring_price_call e ps v2,
                                           subscription_call e v1 v3])
                       | Inr v4 \<Rightarrow>
                          (case onvo_settle
                                  (net (tr @ [customer_call e, product_call e ps,
                                              recurring_price_call e ps v2,
                                              subscription_call e v1 v3])
                                     (checkout_call e ps v3)) of
                             Inl err \<Rightarrow>
                               (Inl err, tr @ [customer_call e, product_call e ps,
                                               recurring_price_call e ps v2,
                                               subscription_call e v1 v3,
                                               checkout_call e ps v3])
                           | Inr v5 \<Rightarrow>
                               (if nullish v5
                                then (Inl TypeError,
                                      tr @ [customer_call e, product_call e ps,
                                            recurring_price_call e ps v2,
                                            subscription_call e v1 v3,
                                            checkout_call e ps v3])
                                else (Inr (JObject [(''url'', get v5 ''url'')]),
                                      tr @ [customer_call e, product_call e ps,
                                            recurring_price_call e ps v2,
                                            subscription_call e v1 v3,
                                            checkout_call e ps v3])))))))))"
  using chk
  unfolding onvo_createSubscription_def createCustomer_def createPrice_def
    createProduct_def createSubscriptionRequest_def createCheckoutSession_def
    product_call_def recurring_price_call_def customer_call_def subscription_call_def
    checkout_call_def
  by (simp add: subscription_checks_Inr bind_pure_Inr bind_onvo_request[OF cfg] bind_getProp
      pure_io_apply cong: sum.case_cong if_cong)

section \<open>The one-time sequence of the ONVO adapter\<close>

lemma onvo_call_facts:
  "curl (customer_call e) = onvoConfig_baseUrl @ ''/customers''"
  "curl (product_call e ps) = onvoConfig_baseUrl @ ''/products''"
  "curl (one_time_price_call e ps v) = onvoConfig_baseUrl @ ''/prices''"
  "curl (recurring_price_call e ps v) = onvoConfig_baseUrl @ ''/prices''"
  "curl (payment_intent_call e ps) = onvoConfig_baseUrl @ ''/payment-intents''"
  "curl (subscription_call e v w) = onvoConfig_baseUrl @ ''/subscriptions''"
  "curl (checkout_call e ps v) = onvoConfig_baseUrl @ ''/checkout/sessions/one-time-link''"
  "cmethod (customer_call e) = ''POST''"
  "cmethod (product_call e ps) = ''POST''"
  "cmethod (one_time_price_call e ps v) = ''POST''"
  "cmethod (recurring_price_call e ps v) = ''POST''"
  "cmethod (payment_intent_call e ps) = ''POST''"
  "cmethod (subscription_call e v w) = ''POST''"
  "cmethod (checkout_call e ps v) = ''POST''"
  by (simp_all add: customer_call_def product_call_def one_time_price_call_def
      recurring_price_call_def payment_intent_call_def subscription_call_def
      checkout_call_def onvo_call_def)

lemma onvo_payload_facts:
  "payload_field (one_time_price_call e ps v) ''productId'' = get v ''id''"
  "payload_field (recurring_price_call e ps v) ''productId'' = get v ''id''"
  "payload_field (recurring_price_call e ps v) ''recurring'' =
     JObject [(''interval'', interval ps), (''intervalCount'', JNumber (Fin 1))]"
  "payload_field (subscription_call e v w) ''customerId'' = get v ''id''"
  "payload_field (subscription_call e v w) ''items'' =
     JArray [JObject [(''priceId'', get w ''id''), (''quantity'', JNumber (Fin 1))]]"
  "payload_field (checkout_call e ps v) ''lineItems'' =
     JArray [JObject [(''priceId'', get v ''id''), (''quantity'', JNumber (Fin 1))]]"
  by (simp_all add: one_time_price_call_def recurring_price_call_def subscription_call_def
      checkout_call_def onvo_call_def payload_field_def)

lemma onvo_payload_amounts:
  "payload_amounts (customer_call e) = []"
  "payload_amounts (product_call e ps) = []"
  "payload_amounts (one_time_price_call e ps v) = [amount ps]"
  "payload_amounts (recurring_price_call e ps v) = [amount ps]"
  "payload_amounts (payment_intent_call e ps) = [amount ps]"
  "payload_amounts (subscription_call e v w) = []"
  "payload_amounts (checkout_call e ps v) = []"
  by (simp_all add: customer_call_def product_call_def one_time_price_call_def
      recurring_price_call_def payment_intent_call_def subscription_call_def
      checkout_call_def onvo_call_def payload_amounts_def spread_description_def)

text \<open>
  C2. With the secret key set and arguments that pass the checks, the one-time operation of
  the ONVO adapter only appends calls; their URLs are an initial part of Product, Price,
  PaymentIntent, CheckoutSession, in this order, and all of them are POSTs (nothing is
  deleted); when a call fails it is the last one made and its error is the result unchanged;
  a successful result means exactly four calls were made, the Price call carrying the
  identifier the Product call returned, the CheckoutSession call carrying the identifier
  the Price call returned, and the result holding the URL the CheckoutSession call returned;
  and when every call made was answered with a value other than null the result is a success.
\<close>

theorem onvo_one_time_sequence:
  fixes e :: env and net :: net and ps :: params and tr :: "call list"
  assumes cfg: "onvoConfig_secretKey e \<noteq> []"
    and chk: "payment_checks Onvo ps = Inr ()"
  defines "r \<equiv> onvo_createPaymentIntent e net ps tr"
  defines "new \<equiv> new_calls tr r"
  shows "snd r = tr @ new
    \<and> prefix (map curl new) onvo_one_time_paths
    \<and> (\<forall>c\<in>set new. cmethod c = ''POST'')
    \<and> (\<forall>i<length new. \<forall>err. onvo_answer net tr new i = Inl err
          \<longrightarrow> length new = Suc i \<and> fst r = Inl err)
    \<and> (\<forall>res. fst r = Inr res \<longrightarrow>
          length new = 4
          \<and> (\<exists>v1 v2 v4. onvo_answer net tr new 0 = Inr v1
                \<and> onvo_answer net tr new 1 = Inr v2
                \<and> onvo_answer net tr new 3 = Inr v4
                \<and> payload_field (new ! 1) ''productId'' = get v1 ''id''
                \<and> payload_field (new ! 3) ''lineItems'' =
                    JArray [JObject [(''priceId'', get v2 ''id''),
                                     (''quantity'', JNumber (Fin 1))]]
                \<and> res = JObject [(''url'', get v4 ''url'')]))
    \<and> ((\<forall>i<length new. \<exists>v. onvo_answer net tr new i = Inr v \<and> \<not> nullish v)
          \<longrightarrow> (\<exists>res. fst r = Inr res))"
proof -
  note script = onvo_createPaymentIntent_script [OF cfg chk, of net tr]
  have 1: "snd r = tr @ new \<and> prefix (map curl new) onvo_one_time_paths
             \<and> (\<forall>c\<in>set new. cmethod c = ''POST'')"
    unfolding new_def r_def new_calls_def onvo_one_time_paths_def
    by (simp add: script onvo_call_facts split: sum.splits)
  have 2: "\<forall>i<length new. \<forall>err. onvo_answer net tr new i = Inl err
             \<longrightarrow> length new = Suc i \<and> fst r = Inl err"
    unfolding new_def r_def new_calls_def onvo_answer_def
    by (auto simp: script less_Suc_eq numeral_eq_Suc split: sum.splits)
  have 3: "\<forall>res. fst r = Inr res \<longrightarrow>
          length new = 4
          \<and> (\<exists>v1 v2 v4. onvo_answer net tr new 0 = Inr v1
                \<and> onvo_answer net tr new 1 = Inr v2
                \<and> onvo_answer net tr new 3 = Inr v4
                \<and> payload_field (new ! 1) ''productId'' = get v1 ''id''
                \<and> payload_field (new ! 3) ''lineItems'' =
                    JArray [JObject [(''priceId'', get v2 ''id''),
                                     (''quantity'', JNumber (Fin 1))]]
                \<and> res = JObject [(''url'', get v4 ''url'')])"
    unfolding new_def r_def new_calls_def onvo_answer_def
    by (auto simp: script onvo_payload_facts nth_append numeral_eq_Suc split: sum.splits)
  have 4: "(\<forall>i<length new. \<exists>v. onvo_answer net tr new i = Inr v \<and> \<not> nullish v)
          \<longrightarrow> (\<exists>res. fst r = Inr res)"
    unfolding new_def r_def new_calls_def onvo_answer_def
    by (auto simp: script less_Suc_eq numeral_eq_Suc all_conj_distrib split: sum.splits)
  from 1 2 3 4 show ?thesis by blast
qed

lemma settle_ok:
  "onvo_settle (net_ok tr c) =
     Inr (JObject [(''id'', JString (curl c)), (''url'', JString ''https://pay.example/abc'')])"
  "tilopay_settle (net_ok tr c) =
     Inr (JObject [(''id'', JString (curl c)), (''url'', JString ''https://pay.example/abc'')])"
  by (simp_all add: onvo_settle_def tilopay_settle_def net_ok_def response_ok_def ok_def)

lemma configured:
  "onvoConfig_secretKey env_configured = ''sk_onvo''"
  "tilopayConfig_secretKey env_configured = ''sk_tilopay''"
  "tilopayConfig_baseUrl env_configured = ''https://api.tilopay.com/v1''"
  "appConfig_baseUrl env_configured = ''http://localhost:3000''"
  by (simp_all add: onvoConfig_secretKey_def tilopayConfig_secretKey_def env_configured_def
      envOrEmpty_def tilopayConfig_baseUrl_def appConfig_baseUrl_def optionalEnv_def)

lemma params_usd_checks:
  "payment_checks p (params_usd (JNumber (Fin 1000))) = Inr ()"
  by (simp add: payment_checks_def bind_sum_def params_usd_def validateAmount_iff
      validateCurrency_def validateUrl_def startsWith_def)

lemma onvo_one_time_run_ok:
  "onvo_createPaymentIntent env_configured net_ok (params_usd (JNumber (Fin 1000))) [] =
     (Inr (JObject [(''url'', JString ''https://pay.example/abc'')]),
      [product_call env_configured (params_usd (JNumber (Fin 1000))),
       one_time_price_call env_configured (params_usd (JNumber (Fin 1000)))
         (JObject [(''id'', JString ''https://api.onvopay.com/v1/products'')]),
       payment_intent_call env_configured (params_usd (JNumber (Fin 1000))),
       checkout_call env_configured (params_usd (JNumber (Fin 1000)))
         (JObject [(''id'', JString ''https://api.onvopay.com/v1/prices'')])])"
  by (simp add: onvo_createPaymentIntent_script [OF _ params_usd_checks] configured settle_ok
      nullish_def onvo_call_facts onvoConfig_baseUrl_def one_time_price_call_def
      checkout_call_def onvo_call_def)

theorem onvo_one_time_sequence_witness:
  "onvoConfig_secretKey env_configured \<noteq> []
   \<and> payment_checks Onvo (params_usd (JNumber (Fin 1000))) = Inr ()
   \<and> prefix (map curl (new_calls []
        (onvo_createPaymentIntent env_configured net_ok (params_usd (JNumber (Fin 1000))) [])))
        onvo_one_time_paths"
proof -
  have c: "onvoConfig_secretKey env_configured \<noteq> []"
    by (simp add: configured)
  show ?thesis
    using c params_usd_checks [of Onvo]
      onvo_one_time_sequence [OF c params_usd_checks, of net_ok "[]"]
    by blast
qed

section \<open>The subscription sequence of the ONVO adapter\<close>

lemma params_crc_monthly_checks:
  "subscription_checks p params_crc_monthly = Inr ()"
  by (simp add: subscription_checks_def bind_sum_def params_crc_monthly_def validateAmount_iff
      validateCurrency_def validateInterval_def validateUrl_def startsWith_def)

lemma onvo_subscription_run_ok:
  "onvo_createSubscription env_configured net_ok params_crc_monthly [] =
     (Inr (JObject [(''url'', JString ''https://pay.example/abc'')]),
      [customer_call env_configured,
       product_call env_configured params_crc_monthly,
       recurring_price_call env_configured params_crc_monthly
         (JObject [(''id'', JString ''https://api.onvopay.com/v1/products'')]),
       subscription_call env_configured
         (JObject [(''id'', JString ''https://api.onvopay.com/v1/customers'')])
         (JObject [(''id'', JString ''https://api.onvopay.com/v1/prices'')]),
       checkout_call env_configured params_crc_monthly
         (JObject [(''id'', JString ''https://api.onvopay.com/v1/prices'')])])"
  by (simp add: onvo_createSubscription_script [OF _ params_crc_monthly_checks] configured
      settle_ok nullish_def onvo_call_facts onvoConfig_baseUrl_def recurring_price_call_def
      subscription_call_def checkout_call_def onvo_call_def)

text \<open>
  C3, as stated, fails: in the run of Scenario C (550 minor units in CRC, monthly, every call
  answered with success) five calls are made and only the third, the Price, carries an
  amount; the payload of the fourth, the Subscription, holds no amount.
\<close>

theorem subscription_payload_has_no_amount:
  "map payload_amounts
     (snd (onvo_createSubscription env_configured net_ok params_crc_monthly [])) =
   [[], [], [JNumber (Fin 550)], [], []]"
  unfolding onvo_subscription_run_ok
  by (simp add: onvo_payload_amounts) (simp add: params_crc_monthly_def)

text \<open>
  C3, amended. With the secret key set and arguments that pass the checks, the subscription
  operation of the ONVO adapter only appends POST calls whose URLs are an initial part of
  Customer, Product, Price, Subscription, CheckoutSession, in this order; a failing call is
  the last one made and its error is the result unchanged; a successful result means exactly
  five calls were made, the Price call carrying the amount, the given interval and the
  interval count 1, the Subscription call carrying no amount but the identifiers the
  Customer and Price calls returned, the CheckoutSession call carrying the identifier of the
  Price, and the result holding the URL the CheckoutSession call returned; and when every
  call made was answered with a value other than null the result is a success.
\<close>

theorem onvo_subscription_sequence:
  fixes e :: env and net :: net and ps :: params and tr :: "call list"
  assumes cfg: "onvoConfig_secretKey e \<noteq> []"
    and chk: "subscription_checks Onvo ps = Inr ()"
  defines "r \<equiv> onvo_createSubscription e net ps tr"
  defines "new \<equiv> new_calls tr r"
  shows "snd r = tr @ new
    \<and> prefix (map curl new) onvo_subscription_paths
    \<and> (\<forall>c\<in>set new. cmethod c = ''POST'')
    \<and> (\<forall>i<length new. \<forall>err. onvo_answer net tr new i = Inl err
          \<longrightarrow> length new = Suc i \<and> fst r = Inl err)
    \<and> (\<forall>res. fst r = Inr res \<longrightarrow>
          length new = 5
          \<and> map payload_amounts new = [[], [], [amount ps], [], []]
          \<and> payload_field (new ! 2) ''recurring'' =
               JObject [(''interval'', interval ps), (''intervalCount'', JNumber (Fin 1))]
          \<and> (\<exists>v1 v2 v3 v5. onvo_answer net tr new 0 = Inr v1
                \<and> onvo_answer net tr new 1 = Inr v2
                \<and> onvo_answer net tr new 2 = Inr v3
                \<and> onvo_answer net tr new 4 = Inr v5
                \<and> payload_field (new ! 2) ''productId'' = get v2 ''id''
                \<and> payload_field (new ! 3) ''customerId'' = get v1 ''id''
                \<and> payload_field (new ! 3) ''items'' =
                    JArray [JObject [(''priceId'', get v3 ''id''),
                                     (''quantity'', JNumber (Fin 1))]]
                \<and> payload_field (new ! 4) ''lineItems'' =
                    JArray [JObject [(''priceId'', get v3 ''id''),
                                     (''quantity'', JNumber (Fin 1))]]
                \<and> res = JObject [(''url'', get v5 ''url'')]))
    \<and> ((\<forall>i<length new. \<exists>v. onvo_answer net tr new i = Inr v \<and> \<not> nullish v)
          \<longrightarrow> (\<exists>res. fst r = Inr res))"
proof -
  note script = onvo_createSubscription_script [OF cfg chk, of net tr]
  have 1: "snd r = tr @ new \<and> prefix (map curl new) onvo_subscription_paths
             \<and> (\<forall>c\<in>set new. cmethod c = ''POST'')"
    unfolding new_def r_def new_calls_def onvo_subscription_paths_def
    by (simp add: script onvo_call_facts split: sum.splits)
  have 2: "\<forall>i<length new. \<forall>err. onvo_answer net tr new i = Inl err
             \<longrightarrow> length new = Suc i \<and> fst r = Inl err"
    unfolding new_def r_def new_calls_def onvo_answer_def
    by (auto simp: script less_Suc_eq numeral_eq_Suc split: sum.splits)
  have 3: "\<forall>res. fst r = Inr res \<longrightarrow>
          length new = 5
          \<and> map payload_amounts new = [[], [], [amount ps], [], []]
          \<and> payload_field (new ! 2) ''recurring'' =
               JObject [(''interval'', interval ps), (''intervalCount'', JNumber (Fin 1))]
          \<and> (\<exists>v1 v2 v3 v5. onvo_answer net tr new 0 = Inr v1
                \<and> onvo_answer net tr new 1 = Inr v2
                \<and> onvo_answer net tr new 2 = Inr v3
                \<and> onvo_answer net tr new 4 = Inr v5
                \<and> payload_field (new ! 2) ''productId'' = get v2 ''id''
                \<and> payload_field (new ! 3) ''customerId'' = get v1 ''id''
                \<and> payload_field (new ! 3) ''items'' =
                    JArray [JObject [(''priceId'', get v3 ''id''),
                                     (''quantity'', JNumber (Fin 1))]]
                \<and> payload_field (new ! 4) ''lineItems'' =
                    JArray [JObject [(''priceId'', get v3 ''id''),
                                     (''quantity'', JNumber (Fin 1))]]
                \<and> res = JObject [(''url'', get v5 ''url'')])"
    unfolding new_def r_def new_calls_def onvo_answer_def
    by (auto simp: script onvo_payload_facts onvo_payload_amounts nth_append numeral_eq_Suc
        split: sum.splits)
  have 4: "(\<forall>i<length new. \<exists>v. onvo_answer net tr new i = Inr v \<and> \<not> nullish v)
          \<longrightarrow> (\<exists>res. fst r = Inr res)"
    unfolding new_def r_def new_calls_def onvo_answer_def
    by (auto simp: script less_Suc_eq numeral_eq_Suc all_conj_distrib split: sum.splits)
  from 1 2 3 4 show ?thesis by blast
qed

theorem onvo_subscription_sequence_witness:
  "onvoConfig_secretKey env_configured \<noteq> []
   \<and> subscription_checks Onvo params_crc_monthly = Inr ()
   \<and> prefix (map curl (new_calls []
        (onvo_createSubscription env_configured net_ok params_crc_monthly [])))
        onvo_subscription_paths"
proof -
  have c: "onvoConfig_secretKey env_configured \<noteq> []"
    by (simp add: configured)
  show ?thesis
    using c params_crc_monthly_checks [of Onvo]
      onvo_subscription_sequence [OF c params_crc_monthly_checks, of net_ok "[]"]
    by blast
qed

section \<open>Missing required fields on the generate route\<close>

text \<open>
  C10. When the body of a request to the generate route can be destructured (it is not
  null) and any of amount, currency, type, provider, success_url, cancel_url is falsy, the
  response is 400 with the fixed missing-fields message and no call is made. An amount of 0
  is falsy, so it is reported this way and not by the amount message of an adapter.
\<close>

theorem missing_required_field_is_400:
  assumes "\<not> nullish b"
    and "\<not> truthy (get b ''amount'') \<or> \<not> truthy (get b ''currency'')
         \<or> \<not> truthy (get b ''type'') \<or> \<not> truthy (get b ''provider'')
         \<or> \<not> truthy (get b ''success_url'') \<or> \<not> truthy (get b ''cancel_url'')"
  shows "generate_POST e net (Some b) tr =
           (Inr \<lparr>status = 400, body = ErrorBody (Text missing_fields_message)\<rparr>, tr)"
  using assms by (simp add: generate_POST_def generate_missing_def)

theorem missing_required_field_is_400_witness:
  "\<not> nullish (generate_body (JNumber (Fin 0)) ''one_time'' ''tilopay'' [])
   \<and> \<not> truthy (get (generate_body (JNumber (Fin 0)) ''one_time'' ''tilopay'' []) ''amount'')
   \<and> generate_POST env_configured net_ok
        (Some (generate_body (JNumber (Fin 0)) ''one_time'' ''tilopay'' [])) [] =
      (Inr \<lparr>status = 400, body = ErrorBody (Text missing_fields_message)\<rparr>, [])"
proof -
  have n: "\<not> nullish (generate_body (JNumber (Fin 0)) ''one_time'' ''tilopay'' [])"
    by (simp add: nullish_def generate_body_def)
  have z: "\<not> truthy (get (generate_body (JNumber (Fin 0)) ''one_time'' ''tilopay'' []) ''amount'')"
    by (simp add: generate_body_def)
  show ?thesis
    using n z missing_required_field_is_400 [OF n, of env_configured net_ok "[]"]
    by blast
qed

lemma missing_field_examples:
  "generate_POST env_configured net_ok (Some (JObject [])) [] =
     (Inr \<lparr>status = 400, body = ErrorBody (Text missing_fields_message)\<rparr>, [])"
  "generate_POST env_configured net_ok (Some (JString ''hello'')) [] =
     (Inr \<lparr>status = 400, body = ErrorBody (Text missing_fields_message)\<rparr>, [])"
  "generate_POST env_configured net_ok (Some Null) [] = (Inl TypeError, [])"
  by (simp_all add: generate_POST_def generate_missing_def nullish_def)

section \<open>A missing secret key\<close>

lemma secretKey_empty:
  "tilopayConfig_secretKey e = [] \<longleftrightarrow>
     TILOPAY_SECRET_KEY e = None \<or> TILOPAY_SECRET_KEY e = Some []"
  "onvoConfig_secretKey e = [] \<longleftrightarrow> ONVO_SECRET_KEY e = None \<or> ONVO_SECRET_KEY e = Some []"
  by (auto simp: tilopayConfig_secretKey_def onvoConfig_secretKey_def envOrEmpty_def
      split: option.splits)

lemma tilopay_unconfigured:
  assumes "tilopayConfig_secretKey e = []"
  shows "tilopay_request e net path payload tr = (Inl (ProviderError Tilopay SecretKeyMissing), tr)"
    and "snd (tilopay_createPaymentIntent e net ps tr) = tr"
    and "snd (tilopay_createSubscription e net ps tr) = tr"
    and "payment_checks Tilopay ps = Inr () \<Longrightarrow>
         tilopay_createPaymentIntent e net ps tr = (Inl (ProviderError Tilopay SecretKeyMissing), tr)"
    and "subscription_checks Tilopay ps = Inr () \<Longrightarrow>
         tilopay_createSubscription e net ps tr = (Inl (ProviderError Tilopay SecretKeyMissing), tr)"
proof -
  show "tilopay_request e net path payload tr = (Inl (ProviderError Tilopay SecretKeyMissing), tr)"
    using assms by (simp add: tilopay_request_eq)
  show "snd (tilopay_createPaymentIntent e net ps tr) = tr"
    using assms
    by (cases "payment_checks Tilopay ps")
       (simp_all add: checks_fail tilopay_createPaymentIntent_checked)
  show "snd (tilopay_createSubscription e net ps tr) = tr"
    using assms
    by (cases "subscription_checks Tilopay ps")
       (simp_all add: checks_fail tilopay_createSubscription_checked)
  show "payment_checks Tilopay ps = Inr () \<Longrightarrow>
         tilopay_createPaymentIntent e net ps tr = (Inl (ProviderError Tilopay SecretKeyMissing), tr)"
    using assms by (simp add: tilopay_createPaymentIntent_checked)
  show "subscription_checks Tilopay ps = Inr () \<Longrightarrow>
         tilopay_createSubscription e net ps tr = (Inl (ProviderError Tilopay SecretKeyMissing), tr)"
    using assms by (simp add: tilopay_createSubscription_checked)
qed

lemma onvo_unconfigured_all:
  assumes "onvoConfig_secretKey e = []"
  shows "onvo_request e net m path payload tr = (Inl (ProviderError Onvo SecretKeyMissing), tr)"
    and "snd (onvo_createPaymentIntent e net ps tr) = tr"
    and "snd (onvo_createSubscription e net ps tr) = tr"
proof -
  show "onvo_request e net m path payload tr = (Inl (ProviderError Onvo SecretKeyMissing), tr)"
    using assms by (simp add: onvo_request_eq)
  show "snd (onvo_createPaymentIntent e net ps tr) = tr"
    using assms
    by (cases "payment_checks Onvo ps") (simp_all add: checks_fail onvo_unconfigured)
  show "snd (onvo_createSubscription e net ps tr) = tr"
    using assms
    by (cases "subscription_checks Onvo ps") (simp_all add: checks_fail onvo_unconfigured)
qed

text \<open>
  C8. When the secret key of a provider is missing or empty, the request helper of that
  provider throws the configuration error without calling \<^verbatim>\<open>fetch\<close>; no operation of
  the adapter makes any call, and an operation whose arguments pass the checks (the checks
  come first) ends in that configuration error.
\<close>

theorem missing_credential_no_network:
  "(TILOPAY_SECRET_KEY e = None \<or> TILOPAY_SECRET_KEY e = Some [] \<longrightarrow>
      tilopay_request e net path payload tr =
        (Inl (ProviderError Tilopay SecretKeyMissing), tr)
      \<and> snd (tilopay_createPaymentIntent e net ps tr) = tr
      \<and> snd (tilopay_createSubscription e net ps tr) = tr
      \<and> (payment_checks Tilopay ps = Inr () \<longrightarrow>
           tilopay_createPaymentIntent e net ps tr =
             (Inl (ProviderError Tilopay SecretKeyMissing), tr))
      \<and> (subscription_checks Tilopay ps = Inr () \<longrightarrow>
           tilopay_createSubscription e net ps tr =
             (Inl (ProviderError Tilopay SecretKeyMissing), tr)))
   \<and> (ONVO_SECRET_KEY e = None \<or> ONVO_SECRET_KEY e = Some [] \<longrightarrow>
      onvo_request e net m path payload tr = (Inl (ProviderError Onvo SecretKeyMissing), tr)
      \<and> snd (onvo_createPaymentIntent e net ps tr) = tr
      \<and> snd (onvo_createSubscription e net ps tr) = tr
      \<and> (payment_checks Onvo ps = Inr () \<longrightarrow>
           onvo_createPaymentIntent e net ps tr =
             (Inl (ProviderError Onvo SecretKeyMissing), tr))
      \<and> (subscription_checks Onvo ps = Inr () \<longrightarrow>
           onvo_createSubscription e net ps tr =
             (Inl (ProviderError Onvo SecretKeyMissing), tr)))
   \<and> kind_of (ProviderError Tilopay SecretKeyMissing) = ProviderConfigError
   \<and> kind_of (ProviderError Onvo SecretKeyMissing) = ProviderConfigError"
  unfolding secretKey_empty [symmetric]
  by (simp add: tilopay_unconfigured onvo_unconfigured_all onvo_unconfigured)

theorem missing_credential_no_network_witness:
  "TILOPAY_SECRET_KEY env_unconfigured = None
   \<and> ONVO_SECRET_KEY env_unconfigured = Some []
   \<and> payment_checks Tilopay (params_usd (JNumber (Fin 1000))) = Inr ()
   \<and> subscription_checks Onvo params_crc_monthly = Inr ()
   \<and> tilopay_createPaymentIntent env_unconfigured net_ok (params_usd (JNumber (Fin 1000))) [] =
       (Inl (ProviderError Tilopay SecretKeyMissing), [])
   \<and> onvo_createSubscription env_unconfigured net_ok params_crc_monthly [] =
       (Inl (ProviderError Onvo SecretKeyMissing), [])"
proof -
  have t: "TILOPAY_SECRET_KEY env_unconfigured = None"
    and o: "ONVO_SECRET_KEY env_unconfigured = Some []"
    by (simp_all add: env_unconfigured_def)
  show ?thesis
    using t o params_usd_checks [of Tilopay] params_crc_monthly_checks [of Onvo]
      missing_credential_no_network [where e = env_unconfigured and net = net_ok
        and tr = "[]" and ps = "params_usd (JNumber (Fin 1000))"]
      missing_credential_no_network [where e = env_unconfigured and net = net_ok
        and tr = "[]" and ps = params_crc_monthly]
    by blast
qed

section \<open>The example bodies\<close>

lemma nullish_simps:
  "nullish Undefined" "nullish Null" "\<not> nullish (JBool b)" "\<not> nullish (JNumber n)"
  "\<not> nullish (JString s)" "\<not> nullish (JArray xs)" "\<not> nullish (JObject fs)"
  by (simp_all add: nullish_def)

lemma generate_body_facts:
  "get (generate_body a ty prov extra) ''provider'' = JString prov"
  "get (generate_body a ty prov extra) ''type'' = JString ty"
  "get (generate_body a ty prov extra) ''amount'' = a"
  "generate_params (generate_body a ty prov []) = params_usd a"
  "\<not> nullish (generate_body a ty prov extra)"
  "generate_missing (generate_body a ty prov extra) \<longleftrightarrow> \<not> truthy a \<or> ty = [] \<or> prov = []"
  by (simp_all add: generate_body_def generate_params_def params_usd_def nullish_def
      generate_missing_def)

section \<open>The single call of the TiloPay adapter\<close>

lemma settle_2xx:
  "ok resp \<Longrightarrow> rjson resp = Some v \<Longrightarrow> tilopay_settle (Resolved resp) = Inr v"
  "ok resp \<Longrightarrow> rjson resp = Some v \<Longrightarrow> onvo_settle (Resolved resp) = Inr v"
  by (simp_all add: tilopay_settle_def onvo_settle_def)

lemma tilopay_calls:
  "snd (tilopay_createPaymentIntent e net ps tr) =
     (if payment_checks Tilopay ps = Inr () \<and> tilopayConfig_secretKey e \<noteq> []
      then tr @ [tilopay_payment_call e ps] else tr)"
  "snd (tilopay_createSubscription e net ps tr) =
     (if subscription_checks Tilopay ps = Inr () \<and> tilopayConfig_secretKey e \<noteq> []
      then tr @ [tilopay_subscription_call e ps] else tr)"
proof -
  show "snd (tilopay_createPaymentIntent e net ps tr) =
     (if payment_checks Tilopay ps = Inr () \<and> tilopayConfig_secretKey e \<noteq> []
      then tr @ [tilopay_payment_call e ps] else tr)"
    by (cases "payment_checks Tilopay ps")
       (simp_all add: checks_fail tilopay_createPaymentIntent_checked)
  show "snd (tilopay_createSubscription e net ps tr) =
     (if subscription_checks Tilopay ps = Inr () \<and> tilopayConfig_secretKey e \<noteq> []
      then tr @ [tilopay_subscription_call e ps] else tr)"
    by (cases "subscription_checks Tilopay ps")
       (simp_all add: checks_fail tilopay_createSubscription_checked)
qed

text \<open>
  C7, as stated, fails: a 200 response whose body is the empty object, so without a url
  field, makes \<^verbatim>\<open>createPaymentIntent\<close> return that object as its result, not an error;
  the generate route then answers 200 with an undefined url.
\<close>

theorem missing_url_is_a_success:
  "tilopay_createPaymentIntent env_configured net_empty_object
       (params_usd (JNumber (Fin 1000))) [] =
     (Inr (JObject []), [tilopay_payment_call env_configured (params_usd (JNumber (Fin 1000)))])
   \<and> get (JObject []) ''url'' = Undefined
   \<and> fst (generate_POST env_configured net_empty_object
        (Some (generate_body (JNumber (Fin 1000)) ''one_time'' ''tilopay'' [])) []) =
     Inr \<lparr>status = 200, body = UrlBody Undefined\<rparr>"
proof -
  have run: "tilopay_createPaymentIntent env_configured net_empty_object
       (params_usd (JNumber (Fin 1000))) [] =
     (Inr (JObject []), [tilopay_payment_call env_configured (params_usd (JNumber (Fin 1000)))])"
    by (simp add: tilopay_createPaymentIntent_checked [OF params_usd_checks] configured
        net_empty_object_def tilopay_settle_def ok_def)
  have route: "fst (generate_POST env_configured net_empty_object
        (Some (generate_body (JNumber (Fin 1000)) ''one_time'' ''tilopay'' [])) []) =
     Inr \<lparr>status = 200, body = UrlBody Undefined\<rparr>"
    by (simp add: generate_POST_def generate_try_def generate_body_facts bind_io_def run
        pure_io_apply getProp_def nullish_simps)
  show ?thesis using run route by simp
qed

text \<open>
  C7, amended. Each operation of the TiloPay adapter makes at most one call: exactly one
  when its arguments pass the checks and the secret key is set, none otherwise. A 2xx
  response whose body is JSON is returned as the result as it is: the adapter does not look
  for a url field.
\<close>

theorem tilopay_single_call:
  "snd (tilopay_createPaymentIntent e net ps tr) =
     (if payment_checks Tilopay ps = Inr () \<and> tilopayConfig_secretKey e \<noteq> []
      then tr @ [tilopay_payment_call e ps] else tr)
   \<and> snd (tilopay_createSubscription e net ps tr) =
     (if subscription_checks Tilopay ps = Inr () \<and> tilopayConfig_secretKey e \<noteq> []
      then tr @ [tilopay_subscription_call e ps] else tr)
   \<and> (payment_checks Tilopay ps = Inr () \<and> tilopayConfig_secretKey e \<noteq> []
       \<and> net tr (tilopay_payment_call e ps) = Resolved resp \<and> ok resp \<and> rjson resp = Some v
       \<longrightarrow> tilopay_createPaymentIntent e net ps tr = (Inr v, tr @ [tilopay_payment_call e ps]))
   \<and> (subscription_checks Tilopay ps = Inr () \<and> tilopayConfig_secretKey e \<noteq> []
       \<and> net tr (tilopay_subscription_call e ps) = Resolved resp \<and> ok resp
       \<and> rjson resp = Some v
       \<longrightarrow> tilopay_createSubscription e net ps tr =
             (Inr v, tr @ [tilopay_subscription_call e ps]))"
  by (simp add: tilopay_calls tilopay_createPaymentIntent_checked
      tilopay_createSubscription_checked settle_2xx)

theorem tilopay_single_call_witness:
  "payment_checks Tilopay (params_usd (JNumber (Fin 1000))) = Inr ()
   \<and> tilopayConfig_secretKey env_configured \<noteq> []
   \<and> snd (tilopay_createPaymentIntent env_configured net_ok
            (params_usd (JNumber (Fin 1000))) []) =
       [tilopay_payment_call env_configured (params_usd (JNumber (Fin 1000)))]
   \<and> tilopay_createPaymentIntent env_configured net_ok (params_usd (JNumber (Fin 1000))) [] =
       (Inr (JObject [(''id'', JString ''https://api.tilopay.com/v1/payment_intents''),
                      (''url'', JString ''https://pay.example/abc'')]),
        [tilopay_payment_call env_configured (params_usd (JNumber (Fin 1000)))])"
proof -
  have c: "tilopayConfig_secretKey env_configured \<noteq> []"
    by (simp add: configured)
  have n: "net_ok [] (tilopay_payment_call env_configured (params_usd (JNumber (Fin 1000)))) =
             Resolved (response_ok
               (tilopay_payment_call env_configured (params_usd (JNumber (Fin 1000)))))"
    by (simp add: net_ok_def)
  have k: "ok (response_ok (tilopay_payment_call env_configured (params_usd (JNumber (Fin 1000)))))"
    by (simp add: ok_def response_ok_def)
  have j: "rjson (response_ok
             (tilopay_payment_call env_configured (params_usd (JNumber (Fin 1000))))) =
           Some (JObject [(''id'', JString ''https://api.tilopay.com/v1/payment_intents''),
                          (''url'', JString ''https://pay.example/abc'')])"
    by (simp add: response_ok_def tilopay_payment_call_def tilopay_call_def configured)
  show ?thesis
    using c n k j params_usd_checks [of Tilopay]
      tilopay_single_call [where e = env_configured and net = net_ok and tr = "[]"
        and ps = "params_usd (JNumber (Fin 1000))"
        and resp = "response_ok
             (tilopay_payment_call env_configured (params_usd (JNumber (Fin 1000))))"
        and v = "JObject [(''id'', JString ''https://api.tilopay.com/v1/payment_intents''),
                          (''url'', JString ''https://pay.example/abc'')]"]
    by simp
qed

section \<open>Which calls an operation can make\<close>



lemma snd_bind_getProp:
  "snd (bind_io m (\<lambda>result. pure_io (getProp result k)) tr) = snd (m tr)"
  by (simp add: bind_io_def pure_io_def split: prod.splits sum.splits)




section \<open>The provider identifier\<close>

lemma generate_POST_try:
  "\<not> nullish b \<Longrightarrow> \<not> generate_missing b \<Longrightarrow>
   generate_POST e net (Some b) tr =
     (case generate_try e net b tr of
        (Inr url, tr') \<Rightarrow> (Inr \<lparr>status = 200, body = UrlBody url\<rparr>, tr')
      | (Inl err, tr') \<Rightarrow> (Inr \<lparr>status = 500, body = ErrorBody (MessageOf err)\<rparr>, tr'))"
  by (simp add: generate_POST_def)

text \<open>
  C5, as stated, fails: a request naming the provider "stripe" is not rejected; the ONVO
  adapter runs, makes its four calls and the route answers 200 with the checkout URL.
\<close>

theorem unknown_provider_reaches_onvo:
  "fst (generate_POST env_configured net_ok
          (Some (generate_body (JNumber (Fin 1000)) ''one_time'' ''stripe'' [])) []) =
     Inr \<lparr>status = 200, body = UrlBody (JString ''https://pay.example/abc'')\<rparr>
   \<and> map curl (snd (generate_POST env_configured net_ok
          (Some (generate_body (JNumber (Fin 1000)) ''one_time'' ''stripe'' [])) [])) =
     onvo_one_time_paths"
  by (simp add: generate_POST_try generate_body_facts generate_try_def bind_io_def
      onvo_one_time_run_ok pure_io_apply getProp_def nullish_simps onvo_call_facts
      onvo_one_time_paths_def)

text \<open>
  C5, amended. The provider identifier is only compared with "tilopay": for a request whose
  required fields are all truthy and whose provider is anything else, known or not, the
  response is the one the ONVO operation for its type produces, 200 with the URL or 500 with
  the error thrown, and never a 400.
\<close>

theorem other_providers_use_onvo:
  fixes e :: env and net :: net and b :: jsval and tr :: "call list"
  assumes "\<not> nullish b" and "\<not> generate_missing b"
    and "get b ''provider'' \<noteq> JString ''tilopay''"
  defines "run \<equiv>
     (if get b ''type'' = JString ''recurring''
      then onvo_createSubscription e net ((generate_params b)\<lparr>interval := JString ''month''\<rparr>)
      else onvo_createPaymentIntent e net (generate_params b))"
  shows "generate_POST e net (Some b) tr =
           (case bind_io run (\<lambda>result. pure_io (getProp result ''url'')) tr of
              (Inr url, tr') \<Rightarrow> (Inr \<lparr>status = 200, body = UrlBody url\<rparr>, tr')
            | (Inl err, tr') \<Rightarrow>
                (Inr \<lparr>status = 500, body = ErrorBody (MessageOf err)\<rparr>, tr'))
       \<and> snd (generate_POST e net (Some b) tr) = snd (run tr)
       \<and> (\<exists>resp. fst (generate_POST e net (Some b) tr) = Inr resp \<and> status resp \<noteq> 400)"
proof -
  have t: "generate_try e net b = bind_io run (\<lambda>result. pure_io (getProp result ''url''))"
    using assms(3) by (simp add: generate_try_def run_def)
  have p: "generate_POST e net (Some b) tr =
           (case bind_io run (\<lambda>result. pure_io (getProp result ''url'')) tr of
              (Inr url, tr') \<Rightarrow> (Inr \<lparr>status = 200, body = UrlBody url\<rparr>, tr')
            | (Inl err, tr') \<Rightarrow>
                (Inr \<lparr>status = 500, body = ErrorBody (MessageOf err)\<rparr>, tr'))"
    using assms(1,2) by (simp add: generate_POST_try t)
  obtain x tr' where eq: "bind_io run (\<lambda>result. pure_io (getProp result ''url'')) tr = (x, tr')"
    by (cases "bind_io run (\<lambda>result. pure_io (getProp result ''url'')) tr")
  have tr': "tr' = snd (run tr)"
    using snd_bind_getProp [of run "''url''" tr] by (simp add: eq)
  have s: "snd (generate_POST e net (Some b) tr) = snd (run tr)"
    unfolding p eq by (cases x) (simp_all add: tr')
  have c: "\<exists>resp. fst (generate_POST e net (Some b) tr) = Inr resp \<and> status resp \<noteq> 400"
    unfolding p by (simp split: prod.splits sum.splits)
  from p s c show ?thesis by blast
qed

theorem other_providers_use_onvo_witness:
  "\<not> nullish (generate_body (JNumber (Fin 1000)) ''one_time'' ''stripe'' [])
   \<and> \<not> generate_missing (generate_body (JNumber (Fin 1000)) ''one_time'' ''stripe'' [])
   \<and> get (generate_body (JNumber (Fin 1000)) ''one_time'' ''stripe'' []) ''provider''
       \<noteq> JString ''tilopay''
   \<and> snd (generate_POST env_configured net_ok
        (Some (generate_body (JNumber (Fin 1000)) ''one_time'' ''stripe'' [])) []) =
      snd (onvo_createPaymentIntent env_configured net_ok (params_usd (JNumber (Fin 1000))) [])"
proof -
  have n: "\<not> nullish (generate_body (JNumber (Fin 1000)) ''one_time'' ''stripe'' [])"
    and m: "\<not> generate_missing (generate_body (JNumber (Fin 1000)) ''one_time'' ''stripe'' [])"
    and p: "get (generate_body (JNumber (Fin 1000)) ''one_time'' ''stripe'' []) ''provider''
              \<noteq> JString ''tilopay''"
    by (simp_all add: generate_body_facts)
  show ?thesis
    using n m p
      other_providers_use_onvo [OF n m p, of env_configured net_ok "[]",
        THEN conjunct2, THEN conjunct1]
    by (simp add: generate_body_facts)
qed

section \<open>The interval of a subscription\<close>







lemma interval_error_example:
  "onvo_createSubscription env_configured net_ok (params_usd (JNumber (Fin 1000))) [] =
     (Inl (ProviderError Onvo (IntervalInvalid Undefined)), [])"
  by (simp add: onvo_createSubscription_def bind_pure params_usd_def validateAmount_iff
      validateCurrency_def validateInterval_def)

section \<open>Status codes of the two routes\<close>

lemma link_body_valid:
  "validateBody (link_body (Fin 10) False) =
     Inr (CreateLinkRequestBody (Fin 10) (JString ''USD'') Undefined False)"
  by (simp add: validateBody_def link_body_def)

lemma link_params_10:
  "create_link_params env_configured
     (CreateLinkRequestBody (Fin 10) (JString ''USD'') Undefined False) =
   \<lparr>amount = JNumber (Fin 1000), currency = JString ''USD'', description = Undefined,
    interval = Undefined,
    success_url = JString ''http://localhost:3000/success?provider=tilopay'',
    cancel_url = JString ''http://localhost:3000/cancel?provider=tilopay''\<rparr>"
  by (simp add: create_link_params_def amountInCents_def configured floor_eq_iff)

lemma link_params_10_checks:
  "payment_checks Tilopay
     (create_link_params env_configured
        (CreateLinkRequestBody (Fin 10) (JString ''USD'') Undefined False)) = Inr ()"
  unfolding link_params_10
  by (simp add: payment_checks_def bind_sum_def validateAmount_iff validateCurrency_def
      validateUrl_def startsWith_def)

lemma settle_503:
  "onvo_settle (net_503_at n tr c) =
     (if length tr = n
      then Inl (ProviderError Onvo
                 (ApiFailure 503 (Plain (JString ''Service Unavailable'')) Undefined))
      else Inr (JObject [(''id'', JString (curl c)),
                         (''url'', JString ''https://pay.example/abc'')]))"
  "tilopay_settle (net_503_at n tr c) =
     (if length tr = n
      then Inl (ProviderError Tilopay
                 (ApiFailure 503 (Plain (JString ''Service Unavailable'')) Undefined))
      else Inr (JObject [(''id'', JString (curl c)),
                         (''url'', JString ''https://pay.example/abc'')]))"
  by (simp_all add: onvo_settle_def tilopay_settle_def net_503_at_def response_ok_def ok_def
      nullish_simps coalesce_def)

lemma settle_down:
  "tilopay_settle (net_down tr c) = Inl (ProviderError Tilopay (NetworkFailure ''ECONNREFUSED''))"
  "onvo_settle (net_down tr c) = Inl (ProviderError Onvo (NetworkFailure ''ECONNREFUSED''))"
  by (simp_all add: onvo_settle_def tilopay_settle_def net_down_def)

text \<open>
  C4, as stated, fails on the generate route: when the first call of the ONVO adapter is
  answered 503, the error thrown is an API error carrying that status, and the route answers
  500, not 502.
\<close>

theorem generate_api_failure_is_500:
  "generate_POST env_configured (net_503_at 0)
     (Some (generate_body (JNumber (Fin 1000)) ''one_time'' ''onvo'' [])) [] =
   (Inr \<lparr>status = 500,
          body = ErrorBody (MessageOf (ProviderError Onvo
                   (ApiFailure 503 (Plain (JString ''Service Unavailable'')) Undefined)))\<rparr>,
    [product_call env_configured (params_usd (JNumber (Fin 1000)))])
   \<and> kind_of (ProviderError Onvo
        (ApiFailure 503 (Plain (JString ''Service Unavailable'')) Undefined)) = ProviderApiError"
  by (simp add: generate_POST_try generate_body_facts generate_try_def bind_io_def
      onvo_createPaymentIntent_script [OF _ params_usd_checks] configured settle_503)

text \<open>
  C4, amended. On the generate route an unparsable body or a missing field is answered 400
  and every value thrown inside the \<^verbatim>\<open>try\<close> block, whatever its kind, is answered 500.
  On the create-link route an unparsable body or a body that fails \<^verbatim>\<open>validateBody\<close> is
  answered 400; a value thrown inside the \<^verbatim>\<open>try\<close> block is answered 502 when it is an
  API error of the adapter carrying a status other than 0, and 500 when it is a
  configuration error or an unexpected error.
\<close>

theorem route_status_by_failure:
  "generate_POST e net None tr =
     (Inr \<lparr>status = 400, body = ErrorBody (Text ''Invalid JSON body'')\<rparr>, tr)
   \<and> (\<not> nullish b \<and> generate_missing b \<longrightarrow>
        generate_POST e net (Some b) tr =
          (Inr \<lparr>status = 400, body = ErrorBody (Text missing_fields_message)\<rparr>, tr))
   \<and> (\<not> nullish b \<and> \<not> generate_missing b \<and> generate_try e net b tr = (Inl err, tr') \<longrightarrow>
        generate_POST e net (Some b) tr =
          (Inr \<lparr>status = 500, body = ErrorBody (MessageOf err)\<rparr>, tr'))
   \<and> create_link_POST e net None tr =
        (Inr \<lparr>status = 400, body = FailureBody (Text ''Invalid JSON body'')\<rparr>, tr)
   \<and> (validateBody raw = Inl err \<longrightarrow>
        create_link_POST e net (Some raw) tr =
          (Inr \<lparr>status = 400, body = FailureBody (MessageOf err)\<rparr>, tr))
   \<and> (validateBody raw = Inr lb \<and> create_link_try e net lb tr = (Inl err, tr') \<longrightarrow>
        create_link_POST e net (Some raw) tr =
          (Inr \<lparr>status = failure_status err, body = FailureBody (MessageOf err)\<rparr>, tr')
        \<and> (kind_of err = ProviderApiError \<and> instanceof_TilopayError err
             \<and> statusCode err \<noteq> Some 0 \<longrightarrow> failure_status err = 502)
        \<and> (kind_of err = ProviderConfigError \<or> kind_of err = UnexpectedError \<longrightarrow>
             failure_status err = 500))"
proof -
  have a: "kind_of err = ProviderApiError \<and> instanceof_TilopayError err
             \<and> statusCode err \<noteq> Some 0 \<longrightarrow> failure_status err = 502"
    by (cases err rule: kind_of.cases) (auto simp: failure_status_def)
  have c: "kind_of err = ProviderConfigError \<or> kind_of err = UnexpectedError \<longrightarrow>
             failure_status err = 500"
    by (cases err rule: kind_of.cases) (auto simp: failure_status_def)
  show ?thesis
    using a c by (simp add: generate_POST_def create_link_POST_def)
qed

theorem route_status_by_failure_witness:
  "validateBody (link_body (Fin 10) False) =
     Inr (CreateLinkRequestBody (Fin 10) (JString ''USD'') Undefined False)
   \<and> create_link_try env_configured (net_503_at 0)
        (CreateLinkRequestBody (Fin 10) (JString ''USD'') Undefined False) [] =
      (Inl (ProviderError Tilopay
             (ApiFailure 503 (Plain (JString ''Service Unavailable'')) Undefined)),
       [tilopay_payment_call env_configured
          (create_link_params env_configured
             (CreateLinkRequestBody (Fin 10) (JString ''USD'') Undefined False))])
   \<and> fst (create_link_POST env_configured (net_503_at 0)
            (Some (link_body (Fin 10) False)) []) =
      Inr \<lparr>status = 502,
            body = FailureBody (MessageOf (ProviderError Tilopay
                     (ApiFailure 503 (Plain (JString ''Service Unavailable'')) Undefined)))\<rparr>"
proof -
  let ?lb = "CreateLinkRequestBody (Fin 10) (JString ''USD'') Undefined False"
  let ?err = "ProviderError Tilopay
                (ApiFailure 503 (Plain (JString ''Service Unavailable'')) Undefined)"
  have t: "create_link_try env_configured (net_503_at 0) ?lb [] =
      (Inl ?err, [tilopay_payment_call env_configured (create_link_params env_configured ?lb)])"
    by (simp add: create_link_try_def bind_io_def
        tilopay_createPaymentIntent_checked [OF link_params_10_checks] configured settle_503)
  have k: "kind_of ?err = ProviderApiError \<and> instanceof_TilopayError ?err
             \<and> statusCode ?err \<noteq> Some 0"
    by simp
  show ?thesis
    using link_body_valid t k
      route_status_by_failure [where e = env_configured and net = "net_503_at 0"
        and raw = "link_body (Fin 10) False" and lb = ?lb and err = ?err and tr = "[]"
        and tr' = "[tilopay_payment_call env_configured
                      (create_link_params env_configured ?lb)]"]
    by simp
qed

lemma create_link_network_failure:
  "fst (create_link_POST env_configured net_down (Some (link_body (Fin 10) False)) []) =
     Inr \<lparr>status = 500,
           body = FailureBody (MessageOf (ProviderError Tilopay
                    (NetworkFailure ''ECONNREFUSED'')))\<rparr>"
  by (simp add: create_link_POST_def link_body_valid create_link_try_def bind_io_def
      tilopay_createPaymentIntent_checked [OF link_params_10_checks] configured settle_down
      failure_status_def)

section \<open>The amount in the payloads\<close>













end
